theory Spec2Isabelle
  imports Main "HOL-Library.Word"
begin

unbundle bit_operations_syntax

section \<open>Data model of \<^verbatim>\<open>net/tcp.hh\<close>\<close>

subsection \<open>Sequence numbers\<close>

text \<open>
  \<^verbatim>\<open>struct tcp_seq { uint32_t raw; }\<close>.  Adding an \<^verbatim>\<open>int32_t\<close> wraps modulo \<open>2^32\<close>, so
  \<^verbatim>\<open>s + n\<close> is word addition.  The difference of two sequence numbers is the \<^verbatim>\<open>int32_t\<close>
  reading of the wrapped difference, and every comparison goes through it.
\<close>

type_synonym tcp_seq = "32 word"

definition seq_diff :: "tcp_seq \<Rightarrow> tcp_seq \<Rightarrow> int" where
  "seq_diff s q = sint (s - q)"

definition seq_lt :: "tcp_seq \<Rightarrow> tcp_seq \<Rightarrow> bool" where
  "seq_lt s q = (seq_diff s q < 0)"

definition seq_gt :: "tcp_seq \<Rightarrow> tcp_seq \<Rightarrow> bool" where
  "seq_gt s q = seq_lt q s"

definition seq_le :: "tcp_seq \<Rightarrow> tcp_seq \<Rightarrow> bool" where
  "seq_le s q = (\<not> seq_gt s q)"

definition seq_ge :: "tcp_seq \<Rightarrow> tcp_seq \<Rightarrow> bool" where
  "seq_ge s q = (\<not> seq_lt s q)"

subsection \<open>Connection states\<close>

datatype tcp_state =
    CLOSED | LISTEN | SYN_SENT | SYN_RECEIVED | ESTABLISHED | FIN_WAIT_1
  | FIN_WAIT_2 | CLOSE_WAIT | CLOSING | LAST_ACK | TIME_WAIT

text \<open>The enumerators are the bits \<^verbatim>\<open>1 << 0 .. 1 << 10\<close> of a \<^verbatim>\<open>uint16_t\<close>.\<close>

fun state_bits :: "tcp_state \<Rightarrow> 16 word" where
  "state_bits CLOSED = 1"
| "state_bits LISTEN = 2"
| "state_bits SYN_SENT = 4"
| "state_bits SYN_RECEIVED = 8"
| "state_bits ESTABLISHED = 16"
| "state_bits FIN_WAIT_1 = 32"
| "state_bits FIN_WAIT_2 = 64"
| "state_bits CLOSE_WAIT = 128"
| "state_bits CLOSING = 256"
| "state_bits LAST_ACK = 512"
| "state_bits TIME_WAIT = 1024"

datatype tcp_error = tcp_reset_error | tcp_connect_error | tcp_refused_error

subsection \<open>Headers and packets\<close>

type_synonym ipaddr = "32 word"
type_synonym ethernet_address = "48 word"
type_synonym bytes = "8 word list"

text \<open>
  \<^verbatim>\<open>struct tcp_hdr\<close>, in host byte order.  The one-bit flag fields are booleans.
\<close>

record tcp_hdr =
  src_port :: "16 word"
  dst_port :: "16 word"
  seq :: tcp_seq
  ack :: tcp_seq
  rsvd1 :: "4 word"
  data_offset :: "4 word"
  f_fin :: bool
  f_syn :: bool
  f_rst :: bool
  f_psh :: bool
  f_ack :: bool
  f_urg :: bool
  rsvd2 :: "2 word"
  window :: "16 word"
  checksum :: "16 word"
  urgent :: "16 word"

text \<open>
  An inbound \<^verbatim>\<open>packet\<close>, and every packet that carries payload only (the queues
  \<^verbatim>\<open>_snd.unsent\<close>, \<^verbatim>\<open>_rcv.data\<close>, the out-of-order map), is its byte string.  An outbound
  packet is built by \<^verbatim>\<open>prepend_header<tcp_hdr>(options_size)\<close>; it is kept structured as the header,
  the size of the option area and the payload.  The wire encoding (\<^verbatim>\<open>hton\<close>, the option bytes
  written by \<^verbatim>\<open>tcp_option::fill\<close>) lives outside this file and is not modelled.
\<close>

record segment =
  seg_hdr :: tcp_hdr
  seg_options_size :: nat
  seg_payload :: bytes
  seg_tcp_hdr_len :: nat
  seg_needs_csum :: bool

definition segment_len :: "segment \<Rightarrow> nat" where
  "segment_len p = 20 + seg_options_size p + length (seg_payload p)"

text \<open>
  \<^verbatim>\<open>l4packet\<close> (declared with the IP layer): destination address, packet, L2 destination and
  protocol number.  The last two are \<open>None\<close> while they hold their default values.
\<close>

datatype ip_protocol_num = icmp | tcp | udp

record l4packet =
  l4_to :: ipaddr
  l4_p :: segment
  l4_e_dst :: "ethernet_address option"
  l4_proto_num :: "ip_protocol_num option"

record connid =
  cid_local_ip :: ipaddr
  cid_foreign_ip :: ipaddr
  cid_local_port :: "16 word"
  cid_foreign_port :: "16 word"

subsection \<open>The TCB\<close>

text \<open>\<^verbatim>\<open>struct unacked_segment\<close>; its member \<^verbatim>\<open>p\<close> is the field \<open>pkt\<close>.\<close>

record unacked_segment =
  pkt :: segment
  data_len :: "16 word"
  data_remaining :: "16 word"
  nr_transmits :: "32 word"
  tx_time :: int

text \<open>A \<^verbatim>\<open>promise<>\<close>: not yet resolved, resolved with a value, or with an exception.\<close>

datatype promise = Pending | Value | Exception tcp_error

text \<open>
  Modelled from the spec: \<^verbatim>\<open>core/semaphore.hh\<close> is not part of the source.  The spec calls
  \<^verbatim>\<open>user_queue_space\<close> and \<^verbatim>\<open>_queue_space\<close> counting semaphores over bytes: \<^verbatim>\<open>signal(n)\<close>
  returns \<open>n\<close> units of credit, \<^verbatim>\<open>try_wait(n)\<close> takes \<open>n\<close> units when that many are
  available, \<^verbatim>\<open>broken(e)\<close> marks the semaphore broken with the error \<open>e\<close>.
\<close>

record semaphore =
  sem_count :: nat
  sem_broken :: "tcp_error option"

definition signal :: "nat \<Rightarrow> semaphore \<Rightarrow> semaphore" where
  "signal n s = s\<lparr>sem_count := sem_count s + n\<rparr>"

definition try_wait :: "nat \<Rightarrow> semaphore \<Rightarrow> semaphore option" where
  "try_wait n s = (if n \<le> sem_count s then Some (s\<lparr>sem_count := sem_count s - n\<rparr>) else None)"

definition broken :: "tcp_error \<Rightarrow> semaphore \<Rightarrow> semaphore" where
  "broken e s = s\<lparr>sem_broken := Some e\<rparr>"

record tcp_option =
  mss_received :: bool
  win_scale_received :: bool
  timestamps_received :: bool
  sack_received :: bool
  remote_mss :: "16 word"
  local_mss :: "16 word"
  remote_win_scale :: "8 word"
  local_win_scale :: "8 word"

text \<open>
  \<^verbatim>\<open>class tcb\<close>.  The members of \<^verbatim>\<open>struct send _snd\<close> and \<^verbatim>\<open>struct receive _rcv\<close> are the
  fields \<open>snd_\<dots>\<close> and \<open>rcv_\<dots>\<close>.  Durations and time points of \<^verbatim>\<open>lowres_clock\<close> are integers
  counting milliseconds (the 64-bit representation is taken as unbounded).  A
  \<^verbatim>\<open>timer<lowres_clock>\<close> is its expiry time, \<open>None\<close> when it is not armed.  An empty
  \<^verbatim>\<open>optional<promise<>>\<close> is \<open>None\<close>.  The field \<open>this\<close> is the address of the object, what
  \<^verbatim>\<open>shared_from_this()\<close> hands out.
\<close>

record tcb =
  this :: nat
  state :: tcp_state
  connect_done_promise :: promise
  local_ip :: ipaddr
  foreign_ip :: ipaddr
  local_port :: "16 word"
  foreign_port :: "16 word"
  snd_unacknowledged :: tcp_seq
  snd_next :: tcp_seq
  snd_window :: "32 word"
  snd_window_scale :: "8 word"
  snd_mss :: "16 word"
  snd_urgent :: tcp_seq
  snd_wl1 :: tcp_seq
  snd_wl2 :: tcp_seq
  snd_initial :: tcp_seq
  snd_data :: "unacked_segment list"
  snd_unsent :: "bytes list"
  snd_unsent_len :: "32 word"
  snd_queued_len :: "32 word"
  snd_closed :: bool
  snd_all_data_acked_promise :: "promise option"
  snd_user_queue_space :: semaphore
  snd_rttvar :: int
  snd_srtt :: int
  snd_first_rto_sample :: bool
  snd_syn_tx_time :: int
  snd_cwnd :: "32 word"
  snd_ssthresh :: "32 word"
  snd_dupacks :: "16 word"
  snd_syn_retransmit :: "32 word"
  snd_fin_retransmit :: "32 word"
  snd_limited_transfer :: "32 word"
  snd_partial_ack :: "32 word"
  snd_recover :: tcp_seq
  snd_window_probe :: bool
  rcv_next :: tcp_seq
  rcv_window :: "32 word"
  rcv_window_scale :: "8 word"
  rcv_mss :: "16 word"
  rcv_urgent :: tcp_seq
  rcv_initial :: tcp_seq
  rcv_data :: "bytes list"
  rcv_out_of_order :: "(tcp_seq \<times> bytes) list"
  rcv_data_received_promise :: "promise option"
  tcb_option :: tcp_option
  delayed_ack_timer :: "int option"
  rto :: int
  persist_time_out :: int
  retransmit_timer :: "int option"
  persist_timer :: "int option"
  nr_full_seg_received :: "16 word"
  packetq :: "l4packet list"
  poll_active :: bool

definition rto_min :: int where "rto_min = 1000"
definition rto_max :: int where "rto_max = 60000"
definition rto_clk_granularity :: int where "rto_clk_granularity = 1"
definition max_nr_retransmit :: "16 word" where "max_nr_retransmit = 5"

section \<open>Operations of the TCB that touch no other object\<close>

definition in_state :: "tcb \<Rightarrow> 16 word \<Rightarrow> bool" where
  "in_state t m = (state_bits (state t) AND m \<noteq> 0)"

definition syn_needs_on :: "tcb \<Rightarrow> bool" where
  "syn_needs_on t = in_state t (state_bits SYN_SENT OR state_bits SYN_RECEIVED)"

definition fin_needs_on :: "tcb \<Rightarrow> bool" where
  "fin_needs_on t =
     (in_state t (state_bits FIN_WAIT_1 OR state_bits CLOSING OR state_bits LAST_ACK)
      \<and> snd_closed t \<and> snd_unsent_len t = 0 \<and> snd_queued_len t = 0)"

definition ack_needs_on :: "tcb \<Rightarrow> bool" where
  "ack_needs_on t = (\<not> in_state t (state_bits CLOSED OR state_bits LISTEN OR state_bits SYN_SENT))"

definition foreign_will_not_send :: "tcb \<Rightarrow> bool" where
  "foreign_will_not_send t =
     in_state t (state_bits CLOSING OR state_bits TIME_WAIT OR state_bits CLOSE_WAIT
                 OR state_bits LAST_ACK OR state_bits CLOSED)"

definition exit_fast_recovery :: "tcb \<Rightarrow> tcb" where
  "exit_fast_recovery t = t\<lparr>snd_dupacks := 0, snd_limited_transfer := 0, snd_partial_ack := 0\<rparr>"

text \<open>\<^verbatim>\<open>flight_size\<close>: the \<^verbatim>\<open>uint32_t\<close> sum of \<^verbatim>\<open>data_remaining\<close> over \<^verbatim>\<open>_snd.data\<close>.\<close>

definition flight_size :: "tcb \<Rightarrow> 32 word" where
  "flight_size t = foldl (\<lambda>size seg. size + ucast (data_remaining seg)) 0 (snd_data t)"

text \<open>
  \<^verbatim>\<open>can_send\<close> returns the budget and, as the source does, writes \<^verbatim>\<open>_snd.limited_transfer\<close>.
\<close>

definition can_send :: "tcb \<Rightarrow> 32 word \<times> tcb" where
  "can_send t =
     (if snd_window_probe t then (1, t)
      else
        let x = min (snd_unacknowledged t + snd_window t - snd_next t) (snd_unsent_len t);
            x = min (snd_cwnd t) x
        in if snd_dupacks t = 1 \<or> snd_dupacks t = 2 then
             let flight = flight_size t;
                 mx = snd_cwnd t + 2 * ucast (snd_mss t);
                 x = (if flight \<le> mx then min x (mx - flight) else 0)
             in (x, t\<lparr>snd_limited_transfer := snd_limited_transfer t + x\<rparr>)
           else if 3 \<le> snd_dupacks t then (min (ucast (snd_mss t)) x, t)
           else (x, t))"


subsection \<open>Timers\<close>

definition start_retransmit_timer :: "int \<Rightarrow> tcb \<Rightarrow> tcb" where
  "start_retransmit_timer now t = t\<lparr>retransmit_timer := Some (now + rto t)\<rparr>"

definition stop_retransmit_timer :: "tcb \<Rightarrow> tcb" where
  "stop_retransmit_timer t = t\<lparr>retransmit_timer := None\<rparr>"

definition start_persist_timer :: "int \<Rightarrow> tcb \<Rightarrow> tcb" where
  "start_persist_timer now t = t\<lparr>persist_timer := Some (now + persist_time_out t)\<rparr>"

definition stop_persist_timer :: "tcb \<Rightarrow> tcb" where
  "stop_persist_timer t = t\<lparr>persist_timer := None\<rparr>"

definition clear_delayed_ack :: "tcb \<Rightarrow> tcb" where
  "clear_delayed_ack t = t\<lparr>delayed_ack_timer := None\<rparr>"

subsection \<open>Round-trip time and congestion window\<close>

text \<open>Integer division of C++ truncates towards zero.\<close>

definition tdiv :: "int \<Rightarrow> int \<Rightarrow> int" where
  "tdiv a b = sgn a * sgn b * (\<bar>a\<bar> div \<bar>b\<bar>)"

definition update_rto :: "int \<Rightarrow> int \<Rightarrow> tcb \<Rightarrow> tcb" where
  "update_rto now tx t =
     (let R = now - tx;
          t = (if snd_first_rto_sample t
               then t\<lparr>snd_first_rto_sample := False, snd_rttvar := tdiv R 2, snd_srtt := R\<rparr>
               else
                 let delta = (if R < snd_srtt t then snd_srtt t - R else R - snd_srtt t)
                 in t\<lparr>snd_rttvar := tdiv (snd_rttvar t * 3) 4 + tdiv delta 4,
                      snd_srtt := tdiv (snd_srtt t * 7) 8 + tdiv R 8\<rparr>);
          t = t\<lparr>rto := snd_srtt t + max rto_clk_granularity (4 * snd_rttvar t)\<rparr>;
          t = t\<lparr>rto := max (rto t) rto_min\<rparr>
      in t\<lparr>rto := min (rto t) rto_max\<rparr>)"

text \<open>
  \<^verbatim>\<open>update_cwnd\<close> divides by \<^verbatim>\<open>_snd.cwnd\<close> in the congestion-avoidance branch; a zero divisor
  is undefined behaviour, the result \<open>None\<close>.
\<close>

definition update_cwnd :: "32 word \<Rightarrow> tcb \<Rightarrow> tcb option" where
  "update_cwnd acked_bytes t =
     (let smss = (ucast (snd_mss t) :: 32 word)
      in if snd_cwnd t < snd_ssthresh t
         then Some (t\<lparr>snd_cwnd := snd_cwnd t + min acked_bytes smss\<rparr>)
         else if snd_cwnd t = 0 then None
         else Some (t\<lparr>snd_cwnd := snd_cwnd t + max 1 (smss * smss div snd_cwnd t)\<rparr>))"

subsection \<open>\<^verbatim>\<open>data_segment_acked\<close>\<close>

text \<open>
  The loop over the front of \<^verbatim>\<open>_snd.data\<close>.  The list argument is \<^verbatim>\<open>_snd.data\<close> itself; each
  round writes the popped queue back to the field.  The result is the running
  \<^verbatim>\<open>total_acked_bytes\<close> and the TCB.
\<close>

fun full_ack_loop ::
  "int \<Rightarrow> tcp_seq \<Rightarrow> unacked_segment list \<Rightarrow> 32 word \<Rightarrow> tcb \<Rightarrow> (32 word \<times> tcb) option" where
  "full_ack_loop now seg_ack [] total_acked_bytes t = Some (total_acked_bytes, t)"
| "full_ack_loop now seg_ack (front # rest) total_acked_bytes t =
     (if seq_le (snd_unacknowledged t + ucast (data_remaining front)) seg_ack then
        let acked_bytes = data_remaining front;
            t = t\<lparr>snd_unacknowledged := snd_unacknowledged t + ucast acked_bytes\<rparr>;
            t = (if nr_transmits front = 0 then update_rto now (tx_time front) t else t)
        in case update_cwnd (ucast acked_bytes) t of
             None \<Rightarrow> None
           | Some t \<Rightarrow>
               full_ack_loop now seg_ack rest (total_acked_bytes + ucast acked_bytes)
                 (t\<lparr>snd_user_queue_space := signal (unat (data_len front)) (snd_user_queue_space t),
                    snd_data := rest\<rparr>)
      else Some (total_acked_bytes, t))"

text \<open>
  After the loop, the partial acknowledgement.  \<^verbatim>\<open>acked_bytes\<close> is the \<^verbatim>\<open>int32_t\<close> difference
  \<^verbatim>\<open>seg_ack - _snd.unacknowledged\<close>; subtracted from the \<^verbatim>\<open>uint16_t\<close> \<^verbatim>\<open>data_remaining\<close>, passed
  as \<^verbatim>\<open>uint32_t\<close> to \<^verbatim>\<open>update_cwnd\<close> and added to the \<^verbatim>\<open>uint32_t\<close> total_acked_bytes, it acts as the wrapped
  difference.  The source takes \<^verbatim>\<open>_snd.data.front()\<close> without looking whether the queue is
  empty: on an empty queue that is undefined behaviour, the result \<open>None\<close>.
\<close>

definition data_segment_acked :: "int \<Rightarrow> tcp_seq \<Rightarrow> tcb \<Rightarrow> (32 word \<times> tcb) option" where
  "data_segment_acked now seg_ack t =
     (case full_ack_loop now seg_ack (snd_data t) 0 t of
        None \<Rightarrow> None
      | Some (total_acked_bytes, t) \<Rightarrow>
          if seq_lt (snd_unacknowledged t) seg_ack then
            let acked_bytes = seg_ack - snd_unacknowledged t
            in case snd_data t of
                 [] \<Rightarrow> None
               | front # rest \<Rightarrow>
                   let t = t\<lparr>snd_data :=
                                front\<lparr>data_remaining := data_remaining front - ucast acked_bytes\<rparr> # rest\<rparr>;
                       t = t\<lparr>snd_unacknowledged := seg_ack\<rparr>
                   in case update_cwnd acked_bytes t of
                        None \<Rightarrow> None
                      | Some t \<Rightarrow> Some (total_acked_bytes + acked_bytes, t)
          else Some (total_acked_bytes, t))"

section \<open>The protocol object \<^verbatim>\<open>class tcp\<close> and what a TCB does to it\<close>

text \<open>
  What the code reads from outside this file, taken as parameters: the clock, the hardware
  features, the two minimal header lengths, L2 resolution (\<open>None\<close> while the future of
  \<^verbatim>\<open>get_l2_dst_address\<close> is not ready), the size of the option area computed by
  \<^verbatim>\<open>tcp_option::get_size\<close>, the checksum of the pseudo header alone and with the packet summed in,
  and the insertion of \<^verbatim>\<open>packet_merger::merge\<close>.
\<close>

record env =
  clock_now :: int
  hw_mtu :: "16 word"
  hw_max_packet_len :: "16 word"
  hw_tx_tso :: bool
  hw_tx_csum_l4_offload :: bool
  tcp_hdr_len_min :: nat
  ip_hdr_len_min :: nat
  get_l2_dst_address :: "ipaddr \<Rightarrow> ethernet_address option"
  get_size :: "tcp_option \<Rightarrow> bool \<Rightarrow> bool \<Rightarrow> 8 word"
  pseudo_header_checksum :: "ipaddr \<Rightarrow> ipaddr \<Rightarrow> nat \<Rightarrow> 16 word"
  packet_checksum :: "ipaddr \<Rightarrow> ipaddr \<Rightarrow> nat \<Rightarrow> tcp_hdr \<Rightarrow> bytes \<Rightarrow> 16 word"
  merger_merge :: "(tcp_seq \<times> bytes) list \<Rightarrow> tcp_seq \<Rightarrow> bytes \<Rightarrow> (tcp_seq \<times> bytes) list"

text \<open>
  The members of \<^verbatim>\<open>class tcp\<close> that the modelled code touches.  \<^verbatim>\<open>_tcbs\<close> maps a connection
  id to the address of its TCB, \<^verbatim>\<open>_poll_tcbs\<close> is the ring of scheduled TCBs, \<^verbatim>\<open>_packetq\<close> the
  queue of packets that belong to no TCB (\<open>stray_packetq\<close>), \<open>tcb_polled\<close> the counter captured
  by the packet provider.  A continuation that waits for L2 resolution is kept in
  \<open>poll_waiting\<close> or \<open>stray_waiting\<close>.
\<close>

record tcp_shard =
  tcbs :: "connid \<Rightarrow> nat option"
  poll_tcbs :: "(nat \<times> ethernet_address) list"
  poll_waiting :: "(ipaddr \<times> nat) list"
  stray_packetq :: "l4packet list"
  stray_waiting :: "(ipaddr \<times> segment) list"
  queue_space :: semaphore
  tcb_polled :: "32 word"

definition poll_tcb :: "env \<Rightarrow> ipaddr \<Rightarrow> nat \<Rightarrow> tcp_shard \<Rightarrow> tcp_shard" where
  "poll_tcb e to ref s =
     (case get_l2_dst_address e to of
        Some dst \<Rightarrow> s\<lparr>poll_tcbs := poll_tcbs s @ [(ref, dst)]\<rparr>
      | None \<Rightarrow> s\<lparr>poll_waiting := poll_waiting s @ [(to, ref)]\<rparr>)"

text \<open>\<^verbatim>\<open>tcb::output()\<close>, named \<open>tcb_output\<close> here.\<close>

definition tcb_output :: "env \<Rightarrow> tcb \<times> tcp_shard \<Rightarrow> tcb \<times> tcp_shard" where
  "tcb_output e = (\<lambda>(t, s).
     if \<not> poll_active t
     then (t\<lparr>poll_active := True\<rparr>, poll_tcb e (foreign_ip t) (this t) s)
     else (t, s))"

definition queue_packet :: "segment \<Rightarrow> tcb \<Rightarrow> tcb" where
  "queue_packet q t =
     t\<lparr>packetq := packetq t @
         [\<lparr>l4_to = foreign_ip t, l4_p = q, l4_e_dst = None, l4_proto_num = None\<rparr>]\<rparr>"

definition remove_from_tcbs :: "tcb \<times> tcp_shard \<Rightarrow> tcb \<times> tcp_shard" where
  "remove_from_tcbs = (\<lambda>(t, s).
     let id = \<lparr>cid_local_ip = local_ip t, cid_foreign_ip = foreign_ip t,
               cid_local_port = local_port t, cid_foreign_port = foreign_port t\<rparr>
     in (t, s\<lparr>tcbs := (tcbs s)(id := None)\<rparr>))"

definition cleanup :: "tcb \<times> tcp_shard \<Rightarrow> tcb \<times> tcp_shard" where
  "cleanup = (\<lambda>(t, s).
     let t = t\<lparr>snd_unsent := []\<rparr>;
         t = t\<lparr>snd_data := []\<rparr>;
         t = t\<lparr>rcv_out_of_order := []\<rparr>;
         t = t\<lparr>rcv_data := []\<rparr>;
         t = stop_retransmit_timer t;
         t = clear_delayed_ack t
     in remove_from_tcbs (t, s))"


subsection \<open>State changes\<close>

definition signal_data_received :: "tcb \<Rightarrow> tcb" where
  "signal_data_received t =
     (case rcv_data_received_promise t of
        Some _ \<Rightarrow> t\<lparr>rcv_data_received_promise := None\<rparr>
      | None \<Rightarrow> t)"

definition signal_all_data_acked :: "tcb \<Rightarrow> tcb" where
  "signal_all_data_acked t =
     (if snd_all_data_acked_promise t \<noteq> None \<and> snd_unsent_len t = 0 \<and> snd_queued_len t = 0
      then t\<lparr>snd_all_data_acked_promise := None\<rparr>
      else t)"

definition do_established :: "env \<Rightarrow> tcb \<Rightarrow> tcb" where
  "do_established e t =
     (let t = t\<lparr>state := ESTABLISHED\<rparr>;
          t = update_rto (clock_now e) (snd_syn_tx_time t) t
      in t\<lparr>connect_done_promise := Value\<rparr>)"

definition do_reset :: "tcb \<times> tcp_shard \<Rightarrow> tcb \<times> tcp_shard" where
  "do_reset = (\<lambda>(t, s).
     let t = t\<lparr>state := CLOSED\<rparr>;
         t = t\<lparr>snd_user_queue_space := broken tcp_reset_error (snd_user_queue_space t)\<rparr>;
         (t, s) = cleanup (t, s);
         t = (case rcv_data_received_promise t of
                Some _ \<Rightarrow> t\<lparr>rcv_data_received_promise := Some (Exception tcp_reset_error)\<rparr>
              | None \<Rightarrow> t);
         t = (case snd_all_data_acked_promise t of
                Some _ \<Rightarrow> t\<lparr>snd_all_data_acked_promise := Some (Exception tcp_reset_error)\<rparr>
              | None \<Rightarrow> t)
     in (t, s))"

definition do_time_wait :: "tcb \<times> tcp_shard \<Rightarrow> tcb \<times> tcp_shard" where
  "do_time_wait = (\<lambda>(t, s). cleanup (t\<lparr>state := TIME_WAIT\<rparr>, s))"

definition do_closed :: "tcb \<times> tcp_shard \<Rightarrow> tcb \<times> tcp_shard" where
  "do_closed = (\<lambda>(t, s). cleanup (t\<lparr>state := CLOSED\<rparr>, s))"

definition do_local_fin_acked :: "tcb \<Rightarrow> tcb" where
  "do_local_fin_acked t =
     (let t = t\<lparr>snd_unacknowledged := snd_unacknowledged t + 1\<rparr>
      in t\<lparr>snd_next := snd_next t + 1\<rparr>)"

subsection \<open>Resets for segments without a connection\<close>

text \<open>
  Modelled from the spec: \<^verbatim>\<open>packet::prepend_header\<close> is not part of the source.  The header it
  hands out has every field zero, as the reset of the spec's scenario 6 shows (\<open>SEQ=0\<close> where
  the code assigns no sequence number).
\<close>

definition zero_hdr :: tcp_hdr where
  "zero_hdr = \<lparr>src_port = 0, dst_port = 0, seq = 0, ack = 0, rsvd1 = 0, data_offset = 0,
     f_fin = False, f_syn = False, f_rst = False, f_psh = False, f_ack = False, f_urg = False,
     rsvd2 = 0, window = 0, checksum = 0, urgent = 0\<rparr>"

definition send_packet_without_tcb ::
  "env \<Rightarrow> ipaddr \<Rightarrow> ipaddr \<Rightarrow> segment \<Rightarrow> tcp_shard \<Rightarrow> tcp_shard" where
  "send_packet_without_tcb e from to q s =
     (case try_wait (segment_len q) (queue_space s) of
        Some sem \<Rightarrow>
          (case get_l2_dst_address e to of
             Some e_dst \<Rightarrow>
               s\<lparr>queue_space := sem,
                 stray_packetq := stray_packetq s @
                   [\<lparr>l4_to = to, l4_p = q, l4_e_dst = Some e_dst, l4_proto_num = Some tcp\<rparr>]\<rparr>
           | None \<Rightarrow> s\<lparr>queue_space := sem, stray_waiting := stray_waiting s @ [(to, q)]\<rparr>)
      | None \<Rightarrow> s)"

text \<open>
  \<^verbatim>\<open>tcp::respond_with_reset\<close>.  \<open>reset_segment\<close> is the packet it builds, up to the call of
  \<^verbatim>\<open>send_packet_without_tcb\<close>.
\<close>

definition reset_segment :: "env \<Rightarrow> tcp_hdr \<Rightarrow> ipaddr \<Rightarrow> ipaddr \<Rightarrow> segment" where
  "reset_segment e rth lip fip =
     (let th = zero_hdr;
          th = th\<lparr>src_port := dst_port rth\<rparr>;
          th = th\<lparr>dst_port := src_port rth\<rparr>;
          th = (if f_ack rth then th\<lparr>seq := ack rth\<rparr> else th);
          th = (if f_syn rth then th\<lparr>ack := seq rth + 1, f_ack := True\<rparr> else th);
          th = th\<lparr>f_rst := True\<rparr>;
          th = th\<lparr>data_offset := 5\<rparr>;
          th = th\<lparr>checksum := 0\<rparr>;
          th = (if hw_tx_csum_l4_offload e
                then th\<lparr>checksum := NOT (pseudo_header_checksum e lip fip 20)\<rparr>
                else th\<lparr>checksum := packet_checksum e lip fip 20 th []\<rparr>)
      in \<lparr>seg_hdr = th, seg_options_size = 0, seg_payload = [], seg_tcp_hdr_len = 20,
          seg_needs_csum = False\<rparr>)"

definition respond_with_reset :: "env \<Rightarrow> tcp_hdr \<Rightarrow> ipaddr \<Rightarrow> ipaddr \<Rightarrow> tcp_shard \<Rightarrow> tcp_shard" where
  "respond_with_reset e rth lip fip s =
     (if f_rst rth then s
      else send_packet_without_tcb e lip fip (reset_segment e rth lip fip) s)"

text \<open>\<^verbatim>\<open>tcb::respond_with_reset\<close>.\<close>

definition tcb_respond_with_reset :: "env \<Rightarrow> tcp_hdr \<Rightarrow> tcb \<times> tcp_shard \<Rightarrow> tcb \<times> tcp_shard" where
  "tcb_respond_with_reset e rth = (\<lambda>(t, s).
     (t, respond_with_reset e rth (local_ip t) (foreign_ip t) s))"

subsection \<open>Retransmission\<close>

definition fast_retransmit :: "env \<Rightarrow> tcb \<times> tcp_shard \<Rightarrow> tcb \<times> tcp_shard" where
  "fast_retransmit e = (\<lambda>(t, s).
     case snd_data t of
       [] \<Rightarrow> (t, s)
     | unacked_seg # rest \<Rightarrow>
         let unacked_seg = unacked_seg\<lparr>nr_transmits := nr_transmits unacked_seg + 1\<rparr>;
             t = t\<lparr>snd_data := unacked_seg # rest\<rparr>;
             t = queue_packet (pkt unacked_seg) t
         in tcb_output e (t, s))"

text \<open>
  A block of a function that can leave the function early yields \<open>Return\<close> with the final
  state, or \<open>Continue\<close> with what the rest of the function works on.
\<close>

datatype ('r, 'c) flow = Return 'r | Continue 'c

text \<open>The lambda \<^verbatim>\<open>output_update_rto\<close> of \<^verbatim>\<open>retransmit\<close>.\<close>

definition output_update_rto :: "env \<Rightarrow> tcb \<times> tcp_shard \<Rightarrow> tcb \<times> tcp_shard" where
  "output_update_rto e ts =
     (let (t, s) = tcb_output e ts;
          t = t\<lparr>rto := min (rto t * 2) rto_max\<rparr>
      in (start_retransmit_timer (clock_now e) t, s))"

text \<open>
  \<^verbatim>\<open>retransmit\<close> is three blocks in a row: \<^verbatim>\<open>// Retransmit SYN\<close>, \<^verbatim>\<open>// Retransmit FIN\<close>
  and \<^verbatim>\<open>// Retransmit Data\<close>.  The post-increments of the retry counters happen on both
  branches of their tests.
\<close>

definition retransmit_syn ::
  "env \<Rightarrow> tcb \<times> tcp_shard \<Rightarrow> (tcb \<times> tcp_shard, tcb \<times> tcp_shard) flow" where
  "retransmit_syn e = (\<lambda>(t, s).
     if syn_needs_on t then
       let old = snd_syn_retransmit t;
           t = t\<lparr>snd_syn_retransmit := old + 1\<rparr>
       in if old < ucast max_nr_retransmit then Continue (output_update_rto e (t, s))
          else Return (cleanup (t\<lparr>connect_done_promise := Exception tcp_connect_error\<rparr>, s))
     else Continue (t, s))"

definition retransmit_fin ::
  "env \<Rightarrow> tcb \<times> tcp_shard \<Rightarrow> (tcb \<times> tcp_shard, tcb \<times> tcp_shard) flow" where
  "retransmit_fin e = (\<lambda>(t, s).
     if fin_needs_on t then
       let old = snd_fin_retransmit t;
           t = t\<lparr>snd_fin_retransmit := old + 1\<rparr>
       in if old < ucast max_nr_retransmit then Continue (output_update_rto e (t, s))
          else Return (cleanup (t, s))
     else Continue (t, s))"

definition retransmit_data :: "env \<Rightarrow> tcb \<times> tcp_shard \<Rightarrow> tcb \<times> tcp_shard" where
  "retransmit_data e = (\<lambda>(t, s).
     case snd_data t of
       [] \<Rightarrow> (t, s)
     | unacked_seg # rest \<Rightarrow>
         let smss = (ucast (snd_mss t) :: 32 word);
             t = (if nr_transmits unacked_seg = 0
                  then t\<lparr>snd_ssthresh := max (flight_size t div 2) (2 * smss)\<rparr>
                  else t);
             t = t\<lparr>snd_recover := snd_next t - 1\<rparr>;
             t = t\<lparr>snd_cwnd := smss\<rparr>;
             t = exit_fast_recovery t
         in if nr_transmits unacked_seg < ucast max_nr_retransmit then
              let unacked_seg = unacked_seg\<lparr>nr_transmits := nr_transmits unacked_seg + 1\<rparr>;
                  t = t\<lparr>snd_data := unacked_seg # rest\<rparr>;
                  t = queue_packet (pkt unacked_seg) t
              in output_update_rto e (t, s)
            else cleanup (t, s))"

definition retransmit :: "env \<Rightarrow> tcb \<times> tcp_shard \<Rightarrow> tcb \<times> tcp_shard" where
  "retransmit e ts =
     (case retransmit_syn e ts of
        Return r \<Rightarrow> r
      | Continue ts \<Rightarrow>
          (case retransmit_fin e ts of
             Return r \<Rightarrow> r
           | Continue ts \<Rightarrow> retransmit_data e ts))"


section \<open>Input in the synchronised states: \<^verbatim>\<open>input_handle_other_state\<close>\<close>

text \<open>
  Modelled from the spec: the packet class is not part of the source.  \<^verbatim>\<open>len()\<close> is the
  \<^verbatim>\<open>unsigned\<close> number of bytes; \<^verbatim>\<open>trim_front(n)\<close> drops the first \<open>n\<close> bytes, the spec's
  trimming of a prefix.  Trimming more than the packet holds has no meaning there: the result
  is \<open>None\<close>, and whatever calls it stops with \<open>None\<close> as well.
\<close>

definition p_len :: "bytes \<Rightarrow> 32 word" where
  "p_len q = of_nat (length q)"

definition trim_front :: "nat \<Rightarrow> bytes \<Rightarrow> bytes option" where
  "trim_front n q = (if n \<le> length q then Some (drop n q) else None)"

definition segment_acceptable :: "tcb \<Rightarrow> tcp_seq \<Rightarrow> 32 word \<Rightarrow> bool" where
  "segment_acceptable t seg_seq seg_len =
     (if seg_len = 0 \<and> rcv_window t = 0 then seg_seq = rcv_next t
      else if seg_len = 0 \<and> 0 < rcv_window t then
        seq_le (rcv_next t) seg_seq \<and> seq_lt seg_seq (rcv_next t + rcv_window t)
      else if 0 < seg_len \<and> 0 < rcv_window t then
        let x = (seq_le (rcv_next t) seg_seq \<and> seq_lt seg_seq (rcv_next t + rcv_window t));
            y = (seq_le (rcv_next t) (seg_seq + seg_len - 1)
                 \<and> seq_lt (seg_seq + seg_len - 1) (rcv_next t + rcv_window t))
        in x \<or> y
      else False)"

definition insert_out_of_order :: "env \<Rightarrow> tcp_seq \<Rightarrow> bytes \<Rightarrow> tcb \<Rightarrow> tcb" where
  "insert_out_of_order e sq q t = t\<lparr>rcv_out_of_order := merger_merge e (rcv_out_of_order t) sq q\<rparr>"

text \<open>
  \<^verbatim>\<open>merge_out_of_order\<close> walks the map in key order; the list argument is the part of the map
  not yet visited, which is all that is left of the map since every visited entry is erased.
\<close>

fun merge_loop :: "(tcp_seq \<times> bytes) list \<Rightarrow> bool \<Rightarrow> tcb \<Rightarrow> (bool \<times> tcb) option" where
  "merge_loop [] merged t = Some (merged, t)"
| "merge_loop ((seg_beg, q) # rest) merged t =
     (let seg_len = p_len q;
          seg_end = seg_beg + seg_len
      in if seq_le seg_beg (rcv_next t) \<and> seq_lt (rcv_next t) seg_end then
           let trim = seq_diff (rcv_next t) seg_beg
           in case (if trim \<noteq> 0
                    then map_option (\<lambda>q. (q, seg_len - word_of_int trim)) (trim_front (nat trim) q)
                    else Some (q, seg_len)) of
                None \<Rightarrow> None
              | Some (q, seg_len) \<Rightarrow>
                  merge_loop rest True
                    (t\<lparr>rcv_next := rcv_next t + seg_len, rcv_data := rcv_data t @ [q],
                       rcv_out_of_order := rest\<rparr>)
         else if seq_ge (rcv_next t) seg_end then
           merge_loop rest merged (t\<lparr>rcv_out_of_order := rest\<rparr>)
         else Some (merged, t))"

definition merge_out_of_order :: "tcb \<Rightarrow> (bool \<times> tcb) option" where
  "merge_out_of_order t =
     (if rcv_out_of_order t = [] then Some (False, t)
      else merge_loop (rcv_out_of_order t) False t)"

definition should_send_ack :: "env \<Rightarrow> 16 word \<Rightarrow> tcb \<Rightarrow> bool \<times> tcb" where
  "should_send_ack e seg_len t =
     (if rcv_mss t < seg_len then
        (True, t\<lparr>nr_full_seg_received := 0, delayed_ack_timer := None\<rparr>)
      else if seg_len = rcv_mss t \<and> 1 \<le> nr_full_seg_received t then
        (True, t\<lparr>nr_full_seg_received := 0, delayed_ack_timer := None\<rparr>)
      else
        let t = (if seg_len = rcv_mss t
                 then t\<lparr>nr_full_seg_received := nr_full_seg_received t + 1\<rparr> else t)
        in if delayed_ack_timer t \<noteq> None then (False, t)
           else (False, t\<lparr>delayed_ack_timer := Some (clock_now e + 200)\<rparr>))"

text \<open>The locals of \<^verbatim>\<open>input_handle_other_state\<close> that live across its steps.\<close>

record locals =
  l_p :: bytes
  l_seg_seq :: tcp_seq
  l_seg_len :: "32 word"
  l_do_output :: bool
  l_do_output_data :: bool

type_synonym tcb_tcp = "tcb \<times> tcp_shard"
type_synonym step_result = "(tcb_tcp, locals \<times> tcb_tcp) flow option"

text \<open>
  Step 4.1, the sequence check, with the trimming of data already received and the hand-over
  of a segment that is ahead of \<^verbatim>\<open>RCV.NXT\<close> to the out-of-order map.
\<close>

definition ihos_sequence :: "env \<Rightarrow> tcp_hdr \<Rightarrow> bytes \<Rightarrow> tcb_tcp \<Rightarrow> step_result" where
  "ihos_sequence e th p0 = (\<lambda>(t, s).
     case trim_front (unat (data_offset th) * 4) p0 of
       None \<Rightarrow> None
     | Some q \<Rightarrow>
         let seg_seq = seq th;
             seg_len = p_len q
         in if \<not> segment_acceptable t seg_seq seg_len then Some (Return (tcb_output e (t, s)))
            else
              case (if seq_lt seg_seq (rcv_next t) then
                      let dup = min (rcv_next t - seg_seq) seg_len
                      in map_option (\<lambda>q. (q, seg_len - dup, seg_seq + dup)) (trim_front (unat dup) q)
                    else Some (q, seg_len, seg_seq)) of
                None \<Rightarrow> None
              | Some (q, seg_len, seg_seq) \<Rightarrow>
                  if seg_seq \<noteq> rcv_next t then
                    Some (Return (tcb_output e (insert_out_of_order e seg_seq q t, s)))
                  else
                    Some (Continue
                      (\<lparr>l_p = q, l_seg_seq = seg_seq, l_seg_len = seg_len,
                        l_do_output = False, l_do_output_data = False\<rparr>, t, s)))"

text \<open>Step 4.2, the RST bit, and step 4.4, the SYN bit.\<close>

definition ihos_rst_syn :: "env \<Rightarrow> tcp_hdr \<Rightarrow> tcb_tcp \<Rightarrow> (tcb_tcp, tcb_tcp) flow" where
  "ihos_rst_syn e th = (\<lambda>(t, s).
     if f_rst th \<and> in_state t (state_bits SYN_RECEIVED) then
       Return (do_reset (t\<lparr>connect_done_promise := Exception tcp_refused_error\<rparr>, s))
     else if f_rst th \<and> in_state t (state_bits ESTABLISHED OR state_bits FIN_WAIT_1
                                      OR state_bits FIN_WAIT_2 OR state_bits CLOSE_WAIT) then
       Return (do_reset (t, s))
     else if f_rst th \<and> in_state t (state_bits CLOSING OR state_bits LAST_ACK
                                      OR state_bits TIME_WAIT) then
       Return (do_closed (t, s))
     else if f_syn th then
       Return (do_reset (tcb_respond_with_reset e th (t, s)))
     else Continue (t, s))"

text \<open>
  The expression \<^verbatim>\<open>th->window << _snd.window_scale\<close> of step 4.5.  Its operands, a
  \<^verbatim>\<open>uint16_t\<close> and a \<^verbatim>\<open>uint8_t\<close>, are promoted to \<^verbatim>\<open>int\<close>, of 32 bits.  The shift is
  undefined when the count is 32 or more, and when \<^verbatim>\<open>window * 2^scale\<close> cannot be represented
  in \<^verbatim>\<open>unsigned int\<close> (the rule of C++14 for a shift of a signed operand; the source is
  of that language level, it uses \<^verbatim>\<open>std::experimental::optional\<close>): the result \<open>None\<close>.  In
  every other case the value, converted to \<^verbatim>\<open>uint32_t\<close> as both uses of the expression convert
  it, is that product.  Nothing in this file bounds \<^verbatim>\<open>_snd.window_scale\<close>, which is copied from
  the option the peer sent.
\<close>

definition scaled_window :: "tcp_hdr \<Rightarrow> tcb \<Rightarrow> 32 word option" where
  "scaled_window th t =
     (if unat (snd_window_scale t) < 32
         \<and> unat (window th) * 2 ^ unat (snd_window_scale t) < 2 ^ 32
      then Some (push_bit (unat (snd_window_scale t)) (ucast (window th)))
      else None)"

text \<open>The lambdas \<^verbatim>\<open>update_window\<close> and \<^verbatim>\<open>set_retransmit_timer\<close> of step 4.5.\<close>

definition update_window :: "env \<Rightarrow> tcp_hdr \<Rightarrow> tcp_seq \<Rightarrow> tcp_seq \<Rightarrow> tcb \<Rightarrow> tcb option" where
  "update_window e th seg_seq seg_ack t =
     (case scaled_window th t of
        None \<Rightarrow> None
      | Some w \<Rightarrow>
          let t = t\<lparr>snd_window := w\<rparr>;
              t = t\<lparr>snd_wl1 := seg_seq\<rparr>;
              t = t\<lparr>snd_wl2 := seg_ack\<rparr>
          in Some (if snd_window t = 0
                   then start_persist_timer (clock_now e) (t\<lparr>persist_time_out := rto t\<rparr>)
                   else stop_persist_timer t))"

definition set_retransmit_timer :: "env \<Rightarrow> tcb \<Rightarrow> tcb" where
  "set_retransmit_timer e t =
     (if snd_data t = [] then signal_all_data_acked (stop_retransmit_timer t)
      else start_retransmit_timer (clock_now e) t)"

text \<open>
  Step 4.5 in \<^verbatim>\<open>ESTABLISHED\<close> and \<^verbatim>\<open>CLOSE_WAIT\<close>, first branch: the segment acknowledges new
  data (\<^verbatim>\<open>SND.UNA < SEG.ACK =< SND.NXT\<close>).
\<close>

definition new_data_acked :: "env \<Rightarrow> tcp_hdr \<Rightarrow> locals \<times> tcb_tcp \<Rightarrow> step_result" where
  "new_data_acked e th = (\<lambda>(l, t, s).
     let seg_seq = l_seg_seq l; seg_ack = ack th
     in case data_segment_acked (clock_now e) seg_ack t of
          None \<Rightarrow> None
        | Some (acked_bytes, t) \<Rightarrow>
            case (if seq_lt (snd_wl1 t) seg_seq
                     \<or> (snd_wl1 t = seg_seq \<and> seq_le (snd_wl2 t) seg_ack)
                  then update_window e th seg_seq seg_ack t else Some t) of
              None \<Rightarrow> None
            | Some t \<Rightarrow>
                let l = l\<lparr>l_do_output_data := True\<rparr>
                in if 3 \<le> snd_dupacks t then
                     let smss = (ucast (snd_mss t) :: 32 word)
                     in if seq_gt seg_ack (snd_recover t) then
                          let t = t\<lparr>snd_cwnd := min (snd_ssthresh t) (max (flight_size t) smss + smss)\<rparr>;
                              t = exit_fast_recovery t;
                              t = set_retransmit_timer e t
                          in Some (Continue (l, t, s))
                        else
                          let (t, s) = fast_retransmit e (t, s);
                              t = t\<lparr>snd_cwnd := snd_cwnd t - acked_bytes\<rparr>;
                              t = (if smss \<le> acked_bytes then t\<lparr>snd_cwnd := snd_cwnd t + smss\<rparr> else t);
                              t = t\<lparr>snd_partial_ack := snd_partial_ack t + 1\<rparr>;
                              t = (if snd_partial_ack t = 1
                                   then start_retransmit_timer (clock_now e) t else t)
                          in Some (Continue (l, t, s))
                   else
                     let t = exit_fast_recovery t;
                         t = set_retransmit_timer e t
                     in Some (Continue (l, t, s)))"

text \<open>
  The test of the second branch, and its body: a duplicate acknowledgement.  The conjunction
  of the source evaluates the shift last, and only when the conjuncts before it hold.
\<close>

definition is_duplicate_ack :: "tcp_hdr \<Rightarrow> locals \<Rightarrow> tcb \<Rightarrow> bool option" where
  "is_duplicate_ack th l t =
     (if snd_data t \<noteq> [] \<and> l_seg_len l = 0 \<and> \<not> f_fin th \<and> \<not> f_syn th
         \<and> ack th = snd_unacknowledged t
      then (case scaled_window th t of
              None \<Rightarrow> None
            | Some w \<Rightarrow> Some (w = snd_window t))
      else Some False)"

definition duplicate_ack :: "env \<Rightarrow> tcp_hdr \<Rightarrow> locals \<times> tcb_tcp \<Rightarrow> locals \<times> tcb_tcp" where
  "duplicate_ack e th = (\<lambda>(l, t, s).
     let seg_ack = ack th;
         t = t\<lparr>snd_dupacks := snd_dupacks t + 1\<rparr>;
         smss = (ucast (snd_mss t) :: 32 word)
     in if snd_dupacks t = 1 \<or> snd_dupacks t = 2 then (l\<lparr>l_do_output_data := True\<rparr>, t, s)
        else if snd_dupacks t = 3 then
          let (t, s) =
                (if seq_gt (seg_ack - 1) (snd_recover t) then
                   let t = t\<lparr>snd_recover := snd_next t - 1\<rparr>;
                       t = t\<lparr>snd_ssthresh :=
                              max ((flight_size t - snd_limited_transfer t) div 2) (2 * smss)\<rparr>
                   in fast_retransmit e (t, s)
                 else (t, s));
              t = t\<lparr>snd_cwnd := snd_ssthresh t + 3 * smss\<rparr>
          in (l, t, s)
        else if 3 < snd_dupacks t then
          (l\<lparr>l_do_output_data := True\<rparr>, t\<lparr>snd_cwnd := snd_cwnd t + smss\<rparr>, s)
        else (l, t, s))"

text \<open>Step 4.5, the ACK field, for all states.\<close>

definition ihos_ack :: "env \<Rightarrow> tcp_hdr \<Rightarrow> locals \<times> tcb_tcp \<Rightarrow> step_result" where
  "ihos_ack e th = (\<lambda>(l, t, s).
     let seg_seq = l_seg_seq l; seg_ack = ack th
     in if \<not> f_ack th then Some (Return (t, s))
        else
          case (if in_state t (state_bits SYN_RECEIVED) then
                  (if seq_le (snd_unacknowledged t) seg_ack \<and> seq_le seg_ack (snd_next t)
                   then Continue (do_established e t, s)
                   else Return (tcb_respond_with_reset e th (t, s)))
                else Continue (t, s)) of
            Return r \<Rightarrow> Some (Return r)
          | Continue (t, s) \<Rightarrow>
              case (if in_state t (state_bits ESTABLISHED OR state_bits CLOSE_WAIT) then
                      (if seq_lt (snd_unacknowledged t) seg_ack \<and> seq_le seg_ack (snd_next t) then
                         new_data_acked e th (l, t, s)
                       else
                         case is_duplicate_ack th l t of
                           None \<Rightarrow> None
                         | Some d \<Rightarrow>
                             if d then Some (Continue (duplicate_ack e th (l, t, s)))
                             else if seq_gt seg_ack (snd_next t) then
                               Some (Return (tcb_output e (t, s)))
                             else if snd_window t = 0 \<and> 0 < window th then
                               (case update_window e th seg_seq seg_ack t of
                                  None \<Rightarrow> None
                                | Some t \<Rightarrow>
                                    Some (Continue (l\<lparr>l_do_output_data := True\<rparr>, t, s)))
                             else Some (Continue (l, t, s)))
                    else Some (Continue (l, t, s))) of
                None \<Rightarrow> None
              | Some (Return r) \<Rightarrow> Some (Return r)
              | Some (Continue (l, t, s)) \<Rightarrow>
                  let t = (if in_state t (state_bits FIN_WAIT_1) \<and> seg_ack = snd_next t + 1
                           then do_local_fin_acked (t\<lparr>state := FIN_WAIT_2\<rparr>) else t)
                  in if in_state t (state_bits CLOSING) then
                       (if seg_ack = snd_next t + 1
                        then Some (Return (do_time_wait (do_local_fin_acked t, s)))
                        else Some (Return (t, s)))
                     else if in_state t (state_bits LAST_ACK) \<and> seg_ack = snd_next t + 1 then
                       Some (Return (do_closed (do_local_fin_acked t, s)))
                     else Some (Continue (l, t, s)))"

text \<open>
  Step 4.7, the segment text.  The mask of the first test is written as the source has it,
  with \<^verbatim>\<open>FIN_WAIT_1\<close> twice.
\<close>

definition ihos_text :: "env \<Rightarrow> locals \<times> tcb_tcp \<Rightarrow> step_result" where
  "ihos_text e = (\<lambda>(l, t, s).
     if in_state t (state_bits ESTABLISHED OR state_bits FIN_WAIT_1 OR state_bits FIN_WAIT_1) then
       (if p_len (l_p l) \<noteq> 0 then
          let t = t\<lparr>rcv_data := rcv_data t @ [l_p l]\<rparr>;
              t = t\<lparr>rcv_next := rcv_next t + l_seg_len l\<rparr>
          in case merge_out_of_order t of
               None \<Rightarrow> None
             | Some (merged, t) \<Rightarrow>
                 let t = signal_data_received t
                 in if merged then Some (Continue (l\<lparr>l_do_output := True\<rparr>, t, s))
                    else
                      let (b, t) = should_send_ack e (ucast (l_seg_len l)) t
                      in Some (Continue (l\<lparr>l_do_output := b\<rparr>, t, s))
        else Some (Continue (l, t, s)))
     else if in_state t (state_bits CLOSE_WAIT OR state_bits CLOSING OR state_bits LAST_ACK
                         OR state_bits TIME_WAIT) then
       Some (Return (t, s))
     else Some (Continue (l, t, s)))"

text \<open>Step 4.8, the FIN bit.\<close>

definition ihos_fin :: "env \<Rightarrow> tcp_hdr \<Rightarrow> locals \<times> tcb_tcp \<Rightarrow> (tcb_tcp, locals \<times> tcb_tcp) flow" where
  "ihos_fin e th = (\<lambda>(l, t, s).
     if f_fin th then
       (if in_state t (state_bits CLOSED OR state_bits LISTEN OR state_bits SYN_SENT) then
          Return (t, s)
        else
          let fin_seq = l_seg_seq l + l_seg_len l
          in if fin_seq = rcv_next t then
               let t = t\<lparr>rcv_next := fin_seq + 1\<rparr>;
                   t = signal_data_received t;
                   t = clear_delayed_ack t;
                   l = l\<lparr>l_do_output := False\<rparr>;
                   (t, s) = tcb_output e (t, s);
                   t = (if in_state t (state_bits SYN_RECEIVED OR state_bits ESTABLISHED)
                        then t\<lparr>state := CLOSE_WAIT\<rparr> else t);
                   t = (if in_state t (state_bits FIN_WAIT_1) then t\<lparr>state := CLOSING\<rparr> else t)
               in if in_state t (state_bits FIN_WAIT_2) then Return (do_time_wait (t, s))
                  else Continue (l, t, s)
             else Continue (l, t, s))
     else Continue (l, t, s))"

text \<open>The last statement: output when an ACK is due or data may be sent.\<close>

definition ihos_output :: "env \<Rightarrow> locals \<times> tcb_tcp \<Rightarrow> tcb_tcp" where
  "ihos_output e = (\<lambda>(l, t, s).
     if l_do_output l then tcb_output e (clear_delayed_ack t, s)
     else if l_do_output_data l then
       let (n, t) = can_send t
       in if n \<noteq> 0 then tcb_output e (clear_delayed_ack t, s) else (t, s)
     else (t, s))"

definition input_handle_other_state :: "env \<Rightarrow> tcp_hdr \<Rightarrow> bytes \<Rightarrow> tcb_tcp \<Rightarrow> tcb_tcp option" where
  "input_handle_other_state e th p0 ts =
     (case ihos_sequence e th p0 ts of
        None \<Rightarrow> None
      | Some (Return r) \<Rightarrow> Some r
      | Some (Continue (l, ts)) \<Rightarrow>
          (case ihos_rst_syn e th ts of
             Return r \<Rightarrow> Some r
           | Continue ts \<Rightarrow>
               (case ihos_ack e th (l, ts) of
                  None \<Rightarrow> None
                | Some (Return r) \<Rightarrow> Some r
                | Some (Continue lts) \<Rightarrow>
                    (case ihos_text e lts of
                       None \<Rightarrow> None
                     | Some (Return r) \<Rightarrow> Some r
                     | Some (Continue lts) \<Rightarrow>
                         (case ihos_fin e th lts of
                            Return r \<Rightarrow> Some r
                          | Continue lts \<Rightarrow> Some (ihos_output e lts))))))"


section \<open>Output\<close>

text \<open>
  The loop of \<^verbatim>\<open>get_transmit_packet\<close> that appends whole packets of \<^verbatim>\<open>_snd.unsent\<close> to \<open>q\<close>
  while they fit into the budget \<open>n\<close> (the local \<^verbatim>\<open>can_send\<close> of the source).
\<close>

fun coalesce :: "bytes list \<Rightarrow> 32 word \<Rightarrow> bytes \<Rightarrow> bytes list \<times> 32 word \<times> bytes" where
  "coalesce [] n q = ([], n, q)"
| "coalesce (front # rest) n q =
     (if p_len front \<le> n then coalesce rest (n - p_len front) (q @ front)
      else (front # rest, n, q))"

definition get_transmit_packet :: "env \<Rightarrow> tcb \<Rightarrow> bytes \<times> tcb" where
  "get_transmit_packet e t =
     (case snd_unsent t of
        [] \<Rightarrow> ([], t)
      | front # rest \<Rightarrow>
          let (n, t) = can_send t;
              len = (if hw_tx_tso e
                     then (word_of_int (uint (hw_max_packet_len e) - int (tcp_hdr_len_min e)
                                        - int (ip_hdr_len_min e)) :: 32 word)
                     else ucast (min (word_of_int (uint (hw_mtu e) - int (tcp_hdr_len_min e)
                                                   - int (ip_hdr_len_min e)) :: 16 word)
                                     (snd_mss t)));
              n = min n len
          in if rest = [] \<and> p_len front \<le> n then
               (front, t\<lparr>snd_unsent := [], snd_unsent_len := snd_unsent_len t - p_len front\<rparr>)
             else if n < p_len front then
               let q = take (unat n) front
               in (q, t\<lparr>snd_unsent := drop (unat n) front # rest,
                        snd_unsent_len := snd_unsent_len t - p_len q\<rparr>)
             else
               let (unsent, n, q) = coalesce rest (n - p_len front) front;
                   (unsent, q) =
                     (case unsent of
                        [] \<Rightarrow> ([], q)
                      | r # rs \<Rightarrow>
                          if n \<noteq> 0 then (drop (unat n) r # rs, q @ take (unat n) r)
                          else (r # rs, q))
               in (q, t\<lparr>snd_unsent := unsent, snd_unsent_len := snd_unsent_len t - p_len q\<rparr>))"

definition output_one :: "env \<Rightarrow> tcb \<Rightarrow> tcb" where
  "output_one e t =
     (if in_state t (state_bits CLOSED) then t
      else
        let (q, t) = get_transmit_packet e t;
            len = (ucast (p_len q) :: 16 word);
            syn_on = syn_needs_on t;
            ack_on = ack_needs_on t;
            options_size = get_size e (tcb_option t) syn_on ack_on;
            th = zero_hdr;
            th = th\<lparr>src_port := local_port t\<rparr>;
            th = th\<lparr>dst_port := foreign_port t\<rparr>;
            th = th\<lparr>f_syn := syn_on\<rparr>;
            th = th\<lparr>f_ack := ack_on\<rparr>;
            t = (if ack_on then clear_delayed_ack t else t);
            th = th\<lparr>f_urg := False\<rparr>;
            th = th\<lparr>f_psh := False\<rparr>;
            th = th\<lparr>seq := (if syn_on then snd_initial t else snd_next t)\<rparr>;
            th = th\<lparr>ack := rcv_next t\<rparr>;
            th = th\<lparr>data_offset := of_nat ((20 + unat options_size) div 4)\<rparr>;
            th = th\<lparr>window := ucast (drop_bit (unat (rcv_window_scale t)) (rcv_window t))\<rparr>;
            th = th\<lparr>checksum := 0\<rparr>;
            t = t\<lparr>snd_next := snd_next t + ucast len\<rparr>;
            fin_on = fin_needs_on t;
            th = th\<lparr>f_fin := fin_on\<rparr>;
            total_len = 20 + unat options_size + unat len;
            th = (if hw_tx_csum_l4_offload e
                  then th\<lparr>checksum := NOT (pseudo_header_checksum e (local_ip t) (foreign_ip t) total_len)\<rparr>
                  else th\<lparr>checksum := packet_checksum e (local_ip t) (foreign_ip t) total_len th q\<rparr>);
            sg = \<lparr>seg_hdr = th, seg_options_size = unat options_size, seg_payload = q,
                   seg_tcp_hdr_len = 20 + unat options_size,
                   seg_needs_csum = hw_tx_csum_l4_offload e\<rparr>;
            t = (if len \<noteq> 0 \<or> syn_on \<or> fin_on then
                   let t = (if len \<noteq> 0
                            then t\<lparr>snd_data := snd_data t @
                                     [\<lparr>pkt = sg, data_len = len, data_remaining = len,
                                       nr_transmits = 0, tx_time = clock_now e\<rparr>]\<rparr>
                            else t)
                   in if retransmit_timer t = None then start_retransmit_timer (clock_now e) t else t
                 else t)
        in queue_packet sg t)"

text \<open>
  \<^verbatim>\<open>get_packet\<close>.  The assertion that \<^verbatim>\<open>_packetq\<close> is not empty is the \<open>None\<close> of the case on
  the queue.
\<close>

definition get_packet :: "env \<Rightarrow> tcb_tcp \<Rightarrow> (l4packet option \<times> tcb_tcp) option" where
  "get_packet e = (\<lambda>(t, s).
     let t = t\<lparr>poll_active := False\<rparr>;
         t = (if packetq t = [] then output_one e t else t)
     in if in_state t (state_bits CLOSED) then Some (None, t, s)
        else
          case packetq t of
            [] \<Rightarrow> None
          | q # rest \<Rightarrow>
              let t = t\<lparr>packetq := rest\<rparr>
              in if packetq t \<noteq> [] then Some (Some q, tcb_output e (t, s))
                 else if snd_dupacks t < 3 then
                   let (n, t) = can_send t
                   in if 0 < n then Some (Some q, tcb_output e (t, s)) else Some (Some q, t, s)
                 else Some (Some q, t, s))"

definition persist :: "env \<Rightarrow> tcb_tcp \<Rightarrow> tcb_tcp" where
  "persist e = (\<lambda>(t, s).
     let t = t\<lparr>snd_window_probe := True\<rparr>;
         t = output_one e t;
         t = t\<lparr>snd_window_probe := False\<rparr>;
         (t, s) = tcb_output e (t, s);
         t = t\<lparr>persist_time_out := min (persist_time_out t * 2) rto_max\<rparr>
     in (start_persist_timer (clock_now e) t, s))"

section \<open>The packet provider\<close>

text \<open>
  The lambda registered by the constructor of \<^verbatim>\<open>tcp\<close>.  The TCBs live in a heap indexed by
  their addresses; the ring \<^verbatim>\<open>_poll_tcbs\<close> holds addresses.  \<open>poll_loop\<close> is the loop
  \<^verbatim>\<open>while (c--)\<close>, \<open>c\<close> being the length of the ring when the provider was entered.  Taking the
  front of an empty ring is undefined, the result \<open>None\<close>.
\<close>

type_synonym tcp_heap = "nat \<Rightarrow> tcb"

fun poll_loop ::
  "env \<Rightarrow> nat \<Rightarrow> tcp_shard \<times> tcp_heap \<Rightarrow> (l4packet option \<times> tcp_shard \<times> tcp_heap) option" where
  "poll_loop e 0 (s, h) = Some (None, s, h)"
| "poll_loop e (Suc c) (s, h) =
     (let s = s\<lparr>tcb_polled := tcb_polled s + 1\<rparr>
      in case poll_tcbs s of
           [] \<Rightarrow> None
         | (ref, dst) # rest \<Rightarrow>
             let s = s\<lparr>poll_tcbs := rest\<rparr>
             in case get_packet e (h ref, s) of
                  None \<Rightarrow> None
                | Some (l4p, t, s) \<Rightarrow>
                    let h = h(ref := t)
                    in case l4p of
                         Some q \<Rightarrow> Some (Some (q\<lparr>l4_e_dst := Some dst\<rparr>), s, h)
                       | None \<Rightarrow> poll_loop e c (s, h))"

definition packet_provider ::
  "env \<Rightarrow> tcp_shard \<times> tcp_heap \<Rightarrow> (l4packet option \<times> tcp_shard \<times> tcp_heap) option" where
  "packet_provider e = (\<lambda>(s, h).
     let c = length (poll_tcbs s)
     in case stray_packetq s of
          q # rest \<Rightarrow>
            if tcb_polled s mod 128 = 0 \<or> c = 0 then
              Some (Some q,
                    s\<lparr>stray_packetq := rest,
                      queue_space := signal (segment_len (l4_p q)) (queue_space s)\<rparr>, h)
            else poll_loop e c (s, h)
        | [] \<Rightarrow> poll_loop e c (s, h))"

section \<open>Concrete inputs\<close>

text \<open>
  A TCB as its constructor leaves it: the members with an initialiser hold it, the others are
  set to zero.
\<close>

definition new_tcb :: tcb where
  "new_tcb = \<lparr>this = 0, state = CLOSED, connect_done_promise = Pending,
     local_ip = 0, foreign_ip = 0, local_port = 0, foreign_port = 0,
     snd_unacknowledged = 0, snd_next = 0, snd_window = 0, snd_window_scale = 0, snd_mss = 0,
     snd_urgent = 0, snd_wl1 = 0, snd_wl2 = 0, snd_initial = 0, snd_data = [], snd_unsent = [],
     snd_unsent_len = 0, snd_queued_len = 0, snd_closed = False,
     snd_all_data_acked_promise = None,
     snd_user_queue_space = \<lparr>sem_count = 212992, sem_broken = None\<rparr>,
     snd_rttvar = 0, snd_srtt = 0, snd_first_rto_sample = True, snd_syn_tx_time = 0,
     snd_cwnd = 0, snd_ssthresh = 0, snd_dupacks = 0, snd_syn_retransmit = 0,
     snd_fin_retransmit = 0, snd_limited_transfer = 0, snd_partial_ack = 0, snd_recover = 0,
     snd_window_probe = False,
     rcv_next = 0, rcv_window = 0, rcv_window_scale = 0, rcv_mss = 0, rcv_urgent = 0,
     rcv_initial = 0, rcv_data = [], rcv_out_of_order = [], rcv_data_received_promise = None,
     tcb_option = \<lparr>mss_received = False, win_scale_received = False,
       timestamps_received = False, sack_received = False, remote_mss = 536, local_mss = 0,
       remote_win_scale = 0, local_win_scale = 0\<rparr>,
     delayed_ack_timer = None, rto = 1000, persist_time_out = 1000, retransmit_timer = None,
     persist_timer = None, nr_full_seg_received = 0, packetq = [], poll_active = False\<rparr>"

definition new_tcp :: tcp_shard where
  "new_tcp = \<lparr>tcbs = (\<lambda>_. None), poll_tcbs = [], poll_waiting = [], stray_packetq = [],
     stray_waiting = [], queue_space = \<lparr>sem_count = 212992, sem_broken = None\<rparr>,
     tcb_polled = 0\<rparr>"

text \<open>
  An environment: the clock at 0, an MTU of 1500 without offloads, L2 resolution ready at
  once, no options, checksums 0, and a merger that appends.
\<close>

definition example_env :: env where
  "example_env = \<lparr>clock_now = 0, hw_mtu = 1500, hw_max_packet_len = 65521, hw_tx_tso = False,
     hw_tx_csum_l4_offload = False, tcp_hdr_len_min = 20, ip_hdr_len_min = 20,
     get_l2_dst_address = (\<lambda>_. Some 0), get_size = (\<lambda>_ _ _. 0),
     pseudo_header_checksum = (\<lambda>_ _ _. 0), packet_checksum = (\<lambda>_ _ _ _ _. 0),
     merger_merge = (\<lambda>m sq q. m @ [(sq, q)])\<rparr>"

definition example_segment :: segment where
  "example_segment = \<lparr>seg_hdr = zero_hdr\<lparr>seq := 7101, f_ack := True\<rparr>, seg_options_size = 0,
     seg_payload = [1, 2, 3], seg_tcp_hdr_len = 20, seg_needs_csum = False\<rparr>"

definition example_unacked :: unacked_segment where
  "example_unacked = \<lparr>pkt = example_segment, data_len = 3, data_remaining = 3,
     nr_transmits = 0, tx_time = 0\<rparr>"

text \<open>
  A passive open about to complete: the TCB in \<^verbatim>\<open>SYN_RECEIVED\<close> with \<open>ISS = 7000\<close> and
  \<open>IRS = 1000\<close>, nothing sent but the SYN, and the peer's acknowledgement of that SYN.
\<close>

definition syn_acked_tcb :: tcb where
  "syn_acked_tcb = new_tcb\<lparr>state := SYN_RECEIVED, snd_initial := 7000,
     snd_unacknowledged := 7000, snd_next := 7001, snd_recover := 7000, snd_window := 29200,
     snd_mss := 1460, snd_cwnd := 4380, snd_ssthresh := 29200, rcv_next := 1001,
     rcv_initial := 1000, rcv_window := 29200, rcv_mss := 1460\<rparr>"

definition handshake_ack :: tcp_hdr where
  "handshake_ack = zero_hdr\<lparr>src_port := 40000, dst_port := 80, seq := 1001, ack := 7001,
     data_offset := 5, f_ack := True, window := 29200\<rparr>"

text \<open>
  An established connection with one segment of three bytes in flight, and the header of a
  pure acknowledgement that acknowledges nothing new.
\<close>

definition est_tcb :: tcb where
  "est_tcb = new_tcb\<lparr>state := ESTABLISHED, connect_done_promise := Value, snd_initial := 7000,
     snd_unacknowledged := 7101, snd_next := 7104, snd_recover := 7000, snd_window := 29200,
     snd_mss := 1460, snd_cwnd := 4380, snd_ssthresh := 29200, snd_data := [example_unacked],
     snd_first_rto_sample := False, snd_wl1 := 1001, snd_wl2 := 7101, rcv_next := 1001,
     rcv_initial := 1000, rcv_window := 29200, rcv_mss := 1460, retransmit_timer := Some 1000\<rparr>"

definition dup_ack_hdr :: tcp_hdr where
  "dup_ack_hdr = zero_hdr\<lparr>src_port := 40000, dst_port := 80, seq := 1001, ack := 7101,
     data_offset := 5, f_ack := True, window := 29200\<rparr>"

text \<open>
  A connection whose FIN has been acknowledged (\<^verbatim>\<open>FIN_WAIT_2\<close>), the same connection one step
  earlier (\<^verbatim>\<open>FIN_WAIT_1\<close>), and an in-order segment of three bytes for them: a header of 20
  bytes and the payload.
\<close>

definition fin_wait_2_tcb :: tcb where
  "fin_wait_2_tcb = new_tcb\<lparr>state := FIN_WAIT_2, connect_done_promise := Value,
     snd_initial := 7000, snd_unacknowledged := 7102, snd_next := 7102, snd_recover := 7000,
     snd_window := 29200, snd_mss := 1460, snd_cwnd := 4380, snd_ssthresh := 29200,
     snd_closed := True, snd_first_rto_sample := False, snd_wl1 := 1001, snd_wl2 := 7101,
     rcv_next := 1001, rcv_initial := 1000, rcv_window := 29200, rcv_mss := 1460\<rparr>"

definition data_hdr :: tcp_hdr where
  "data_hdr = zero_hdr\<lparr>src_port := 40000, dst_port := 80, seq := 1001, ack := 7102,
     data_offset := 5, f_psh := True, f_ack := True, window := 29200\<rparr>"

definition data_packet :: bytes where
  "data_packet = replicate 20 0 @ [104, 105, 33]"

text \<open>A segment with SYN and ACK set that belongs to no connection.\<close>

definition stray_syn :: tcp_hdr where
  "stray_syn = zero_hdr\<lparr>src_port := 40000, dst_port := 80, seq := 1000, ack := 77,
     data_offset := 5, f_syn := True, f_ack := True\<rparr>"

text \<open>
  Inputs of the packet provider: the reset that answers \<open>stray_syn\<close>, as
  \<^verbatim>\<open>send_packet_without_tcb\<close> queues it; a connection with one segment in its \<^verbatim>\<open>_packetq\<close> that
  has asked to be polled; a heap with this connection at address 0 and closed TCBs elsewhere;
  a shard with two strays queued and the connection scheduled; and a shard with no stray and a
  ring of a closed TCB followed by the connection.
\<close>

definition stray_packet :: l4packet where
  "stray_packet = \<lparr>l4_to = 2, l4_p = reset_segment example_env stray_syn 1 2,
     l4_e_dst = Some 0, l4_proto_num = Some tcp\<rparr>"

definition queued_packet :: l4packet where
  "queued_packet = \<lparr>l4_to = 0, l4_p = example_segment, l4_e_dst = None, l4_proto_num = None\<rparr>"

definition queued_tcb :: tcb where
  "queued_tcb = est_tcb\<lparr>packetq := [queued_packet], poll_active := True\<rparr>"

definition example_heap :: tcp_heap where
  "example_heap = (\<lambda>a. new_tcb\<lparr>this := a\<rparr>)(0 := queued_tcb)"

definition stray_shard :: tcp_shard where
  "stray_shard = new_tcp\<lparr>stray_packetq := [stray_packet, stray_packet\<lparr>l4_to := 3\<rparr>],
     poll_tcbs := [(0, 5)]\<rparr>"

definition ring_shard :: tcp_shard where
  "ring_shard = new_tcp\<lparr>poll_tcbs := [(1, 4), (0, 5)], tcb_polled := 127\<rparr>"

section \<open>Notions the statements use\<close>

text \<open>The connection id under which \<^verbatim>\<open>remove_from_tcbs\<close> erases a TCB.\<close>

definition tcb_connid :: "tcb \<Rightarrow> connid" where
  "tcb_connid t = \<lparr>cid_local_ip = local_ip t, cid_foreign_ip = foreign_ip t,
     cid_local_port = local_port t, cid_foreign_port = foreign_port t\<rparr>"

text \<open>The retransmission timeout lies between \<^verbatim>\<open>_rto_min\<close> and \<^verbatim>\<open>_rto_max\<close>.\<close>

definition rto_in_range :: "tcb \<Rightarrow> bool" where
  "rto_in_range t = (rto_min \<le> rto t \<and> rto t \<le> rto_max)"

text \<open>One binary exponential back-off: \<^verbatim>\<open>std::min(x * 2, _rto_max)\<close>.\<close>

definition backoff :: "int \<Rightarrow> int" where
  "backoff r = min (r * 2) rto_max"

section \<open>Basic facts about the operations\<close>

lemma new_tcb_simps:
  "this new_tcb = 0" "state new_tcb = CLOSED" "connect_done_promise new_tcb = Pending"
  "local_ip new_tcb = 0" "foreign_ip new_tcb = 0" "local_port new_tcb = 0"
  "foreign_port new_tcb = 0" "snd_unacknowledged new_tcb = 0" "snd_next new_tcb = 0"
  "snd_window new_tcb = 0" "snd_window_scale new_tcb = 0" "snd_mss new_tcb = 0"
  "snd_urgent new_tcb = 0" "snd_wl1 new_tcb = 0" "snd_wl2 new_tcb = 0" "snd_initial new_tcb = 0"
  "snd_data new_tcb = []" "snd_unsent new_tcb = []" "snd_unsent_len new_tcb = 0"
  "snd_queued_len new_tcb = 0" "snd_closed new_tcb = False"
  "snd_all_data_acked_promise new_tcb = None"
  "snd_user_queue_space new_tcb = \<lparr>sem_count = 212992, sem_broken = None\<rparr>"
  "snd_rttvar new_tcb = 0" "snd_srtt new_tcb = 0" "snd_first_rto_sample new_tcb = True"
  "snd_syn_tx_time new_tcb = 0" "snd_cwnd new_tcb = 0" "snd_ssthresh new_tcb = 0"
  "snd_dupacks new_tcb = 0" "snd_syn_retransmit new_tcb = 0" "snd_fin_retransmit new_tcb = 0"
  "snd_limited_transfer new_tcb = 0" "snd_partial_ack new_tcb = 0" "snd_recover new_tcb = 0"
  "snd_window_probe new_tcb = False" "rcv_next new_tcb = 0" "rcv_window new_tcb = 0"
  "rcv_window_scale new_tcb = 0" "rcv_mss new_tcb = 0" "rcv_urgent new_tcb = 0"
  "rcv_initial new_tcb = 0" "rcv_data new_tcb = []" "rcv_out_of_order new_tcb = []"
  "rcv_data_received_promise new_tcb = None" "delayed_ack_timer new_tcb = None"
  "rto new_tcb = 1000" "persist_time_out new_tcb = 1000" "retransmit_timer new_tcb = None"
  "persist_timer new_tcb = None" "nr_full_seg_received new_tcb = 0" "packetq new_tcb = []"
  "poll_active new_tcb = False"
  by (simp_all add: new_tcb_def)

lemma new_tcp_simps:
  "tcbs new_tcp = (\<lambda>_. None)" "poll_tcbs new_tcp = []" "poll_waiting new_tcp = []"
  "stray_packetq new_tcp = []" "stray_waiting new_tcp = []"
  "queue_space new_tcp = \<lparr>sem_count = 212992, sem_broken = None\<rparr>" "tcb_polled new_tcp = 0"
  by (simp_all add: new_tcp_def)

lemma example_env_simps:
  "clock_now example_env = 0" "hw_mtu example_env = 1500" "hw_tx_tso example_env = False"
  "hw_max_packet_len example_env = 65521"
  "hw_tx_csum_l4_offload example_env = False" "tcp_hdr_len_min example_env = 20"
  "ip_hdr_len_min example_env = 20" "get_l2_dst_address example_env = (\<lambda>_. Some 0)"
  "get_size example_env = (\<lambda>_ _ _. 0)" "pseudo_header_checksum example_env = (\<lambda>_ _ _. 0)"
  "packet_checksum example_env = (\<lambda>_ _ _ _ _. 0)"
  "merger_merge example_env = (\<lambda>m sq q. m @ [(sq, q)])"
  by (simp_all add: example_env_def)

lemma example_unacked_simps:
  "pkt example_unacked = example_segment" "data_len example_unacked = 3"
  "data_remaining example_unacked = 3" "nr_transmits example_unacked = 0"
  "tx_time example_unacked = 0"
  by (simp_all add: example_unacked_def)

lemma hdr_simps:
  "seq handshake_ack = 1001" "ack handshake_ack = 7001" "data_offset handshake_ack = 5"
  "f_ack handshake_ack" "\<not> f_rst handshake_ack" "\<not> f_syn handshake_ack"
  "\<not> f_fin handshake_ack" "window handshake_ack = 29200"
  "seq dup_ack_hdr = 1001" "ack dup_ack_hdr = 7101" "data_offset dup_ack_hdr = 5"
  "f_ack dup_ack_hdr" "\<not> f_rst dup_ack_hdr" "\<not> f_syn dup_ack_hdr"
  "\<not> f_fin dup_ack_hdr" "window dup_ack_hdr = 29200"
  "seq data_hdr = 1001" "ack data_hdr = 7102" "data_offset data_hdr = 5"
  "f_ack data_hdr" "\<not> f_rst data_hdr" "\<not> f_syn data_hdr"
  "\<not> f_fin data_hdr" "window data_hdr = 29200"
  by (simp_all add: handshake_ack_def dup_ack_hdr_def data_hdr_def zero_hdr_def)

text \<open>The states a mask of the source stands for.\<close>

lemma syn_needs_on_iff: "syn_needs_on t \<longleftrightarrow> state t = SYN_SENT \<or> state t = SYN_RECEIVED"
  by (cases "state t") (simp_all add: syn_needs_on_def in_state_def)

lemma syn_not_fin: "syn_needs_on t \<Longrightarrow> state t' = state t \<Longrightarrow> \<not> fin_needs_on t'"
  by (cases "state t") (simp_all add: syn_needs_on_def fin_needs_on_def in_state_def)

text \<open>\<^verbatim>\<open>update_rto\<close> writes the round-trip estimates and the timeout, nothing else.\<close>

lemma update_rto_frame:
  "state (update_rto now tx t) = state t"
  "snd_data (update_rto now tx t) = snd_data t"
  "snd_unacknowledged (update_rto now tx t) = snd_unacknowledged t"
  "snd_next (update_rto now tx t) = snd_next t"
  "snd_cwnd (update_rto now tx t) = snd_cwnd t"
  "snd_ssthresh (update_rto now tx t) = snd_ssthresh t"
  "snd_mss (update_rto now tx t) = snd_mss t"
  "snd_dupacks (update_rto now tx t) = snd_dupacks t"
  "snd_user_queue_space (update_rto now tx t) = snd_user_queue_space t"
  "persist_time_out (update_rto now tx t) = persist_time_out t"
  "persist_timer (update_rto now tx t) = persist_timer t"
  unfolding update_rto_def Let_def
  by (simp_all split del: if_split) simp_all?

text \<open>\<^verbatim>\<open>can_send\<close>: what it leaves of the TCB.\<close>

lemma can_send_state:
  "snd (can_send t) =
     (if \<not> snd_window_probe t \<and> (snd_dupacks t = 1 \<or> snd_dupacks t = 2)
      then t\<lparr>snd_limited_transfer := snd_limited_transfer t + fst (can_send t)\<rparr>
      else t)"
  unfolding can_send_def Let_def by simp

lemma can_send_frame_fields:
  assumes "can_send t = (n, t')"
  shows "rto t' = rto t" "persist_time_out t' = persist_time_out t" "state t' = state t"
    "packetq t' = packetq t" "snd_dupacks t' = snd_dupacks t" "snd_unsent t' = snd_unsent t"
    "snd_cwnd t' = snd_cwnd t" "rcv_data t' = rcv_data t" "rcv_next t' = rcv_next t"
    "snd_ssthresh t' = snd_ssthresh t" "snd_recover t' = snd_recover t"
    "snd_data t' = snd_data t" "poll_active t' = poll_active t"
proof -
  have "t' = snd (can_send t)" using assms by simp
  then show "rto t' = rto t" "persist_time_out t' = persist_time_out t" "state t' = state t"
    "packetq t' = packetq t" "snd_dupacks t' = snd_dupacks t" "snd_unsent t' = snd_unsent t"
    "snd_cwnd t' = snd_cwnd t" "rcv_data t' = rcv_data t" "rcv_next t' = rcv_next t"
    "snd_ssthresh t' = snd_ssthresh t" "snd_recover t' = snd_recover t"
    "snd_data t' = snd_data t" "poll_active t' = poll_active t"
    by (simp_all add: can_send_state)
qed

lemma cleanup_eq:
  "cleanup (t, s) =
     (t\<lparr>snd_unsent := [], snd_data := [], rcv_out_of_order := [], rcv_data := [],
        retransmit_timer := None, delayed_ack_timer := None\<rparr>,
      s\<lparr>tcbs := (tcbs s)(tcb_connid t := None)\<rparr>)"
  by (simp add: cleanup_def remove_from_tcbs_def stop_retransmit_timer_def clear_delayed_ack_def
      tcb_connid_def Let_def)

lemma tcb_output_eq:
  "tcb_output e (t, s) =
     (t\<lparr>poll_active := True\<rparr>,
      if poll_active t then s else poll_tcb e (foreign_ip t) (this t) s)"
proof (cases "poll_active t")
  case True
  then have "t\<lparr>poll_active := True\<rparr> = t" by simp
  with True show ?thesis by (simp add: tcb_output_def)
next
  case False
  then show ?thesis by (simp add: tcb_output_def)
qed

lemma can_send_frame_more:
  assumes "can_send t = (n, t')"
  shows "snd_unsent_len t' = snd_unsent_len t" "retransmit_timer t' = retransmit_timer t"
    "persist_timer t' = persist_timer t"
proof -
  have "t' = snd (can_send t)" using assms by simp
  then show "snd_unsent_len t' = snd_unsent_len t" "retransmit_timer t' = retransmit_timer t"
    "persist_timer t' = persist_timer t"
    by (simp_all add: can_send_state)
qed

text \<open>What \<^verbatim>\<open>get_transmit_packet\<close> and \<^verbatim>\<open>output_one\<close> leave alone.\<close>

lemma get_transmit_packet_frame:
  assumes "get_transmit_packet e t = (q, t')"
  shows "rto t' = rto t" "persist_time_out t' = persist_time_out t" "state t' = state t"
    "packetq t' = packetq t" "snd_dupacks t' = snd_dupacks t"
    "persist_timer t' = persist_timer t"
proof -
  obtain n t1 where c: "can_send t = (n, t1)" by (cases "can_send t")
  note f = can_send_frame_fields[OF c] can_send_frame_more[OF c]
  have *: "t' = snd (get_transmit_packet e t)" using assms by simp
  show "rto t' = rto t" "persist_time_out t' = persist_time_out t" "state t' = state t"
    "packetq t' = packetq t" "snd_dupacks t' = snd_dupacks t"
    "persist_timer t' = persist_timer t"
    unfolding * get_transmit_packet_def c prod.case Let_def
    by (simp_all add: f split del: if_split split: list.split prod.split)
       (simp_all add: f split: list.split prod.split)?
qed

lemma output_one_frame:
  "rto (output_one e t) = rto t" "persist_time_out (output_one e t) = persist_time_out t"
  "state (output_one e t) = state t" "snd_dupacks (output_one e t) = snd_dupacks t"
  "persist_timer (output_one e t) = persist_timer t"
proof -
  obtain q t1 where g: "get_transmit_packet e t = (q, t1)" by (cases "get_transmit_packet e t")
  note f = get_transmit_packet_frame[OF g]
  show "rto (output_one e t) = rto t" "persist_time_out (output_one e t) = persist_time_out t"
    "state (output_one e t) = state t" "snd_dupacks (output_one e t) = snd_dupacks t"
    "persist_timer (output_one e t) = persist_timer t"
    unfolding output_one_def g prod.case Let_def queue_packet_def clear_delayed_ack_def
      start_retransmit_timer_def
    by (simp_all add: f split del: if_split) (simp_all add: f)?
qed

lemma output_one_queues:
  "\<not> in_state t (state_bits CLOSED) \<Longrightarrow> packetq (output_one e t) \<noteq> []"
proof -
  obtain q t1 where g: "get_transmit_packet e t = (q, t1)" by (cases "get_transmit_packet e t")
  assume "\<not> in_state t (state_bits CLOSED)"
  then show ?thesis
    unfolding output_one_def g prod.case Let_def queue_packet_def
    by (simp split del: if_split)
qed

lemma do_established_fields:
  "state (do_established e t) = ESTABLISHED"
  "snd_data (do_established e t) = snd_data t"
  "snd_unacknowledged (do_established e t) = snd_unacknowledged t"
  "snd_next (do_established e t) = snd_next t"
  unfolding do_established_def Let_def by (simp_all add: update_rto_frame)

section \<open>The send budget\<close>

text \<open>
  C5.  \<^verbatim>\<open>can_send()\<close> returns 1 whenever \<^verbatim>\<open>window_probe\<close> is set.  Otherwise it returns the
  least of \<^verbatim>\<open>SND.UNA + SND.window - SND.NXT\<close>, \<^verbatim>\<open>unsent_len\<close> and \<^verbatim>\<open>cwnd\<close>; when \<^verbatim>\<open>dupacks\<close>
  is 1 or 2 that value is capped by \<^verbatim>\<open>cwnd + 2*smss - flight_size\<close>, and is 0 when the flight
  size exceeds \<^verbatim>\<open>cwnd + 2*smss\<close>; when \<^verbatim>\<open>dupacks\<close> is 3 or more it is capped by one \<^verbatim>\<open>smss\<close>.
  All quantities are \<^verbatim>\<open>uint32_t\<close>, as in the source.
\<close>

theorem can_send_budget:
  "fst (can_send t) =
     (if snd_window_probe t then 1
      else
        let x = min (snd_unacknowledged t + snd_window t - snd_next t)
                    (min (snd_unsent_len t) (snd_cwnd t));
            limit = snd_cwnd t + 2 * ucast (snd_mss t)
        in if snd_dupacks t = 1 \<or> snd_dupacks t = 2 then
             (if limit < flight_size t then 0 else min x (limit - flight_size t))
           else if 3 \<le> snd_dupacks t then min x (ucast (snd_mss t))
           else x)"
  by (auto simp: can_send_def Let_def min.assoc min.commute min.left_commute)

text \<open>
  C10, as the code has it.  \<^verbatim>\<open>can_send()\<close> writes one member: when \<^verbatim>\<open>window_probe\<close> is clear
  and \<^verbatim>\<open>dupacks\<close> is 1 or 2, the budget it returns is added to \<^verbatim>\<open>limited_transfer\<close>.  In
  every other case, and in every other member, the TCB is left as it was.  The early return
  for a window probe comes before the update.
\<close>

theorem can_send_frame:
  "snd (can_send t) =
     (if \<not> snd_window_probe t \<and> (snd_dupacks t = 1 \<or> snd_dupacks t = 2)
      then t\<lparr>snd_limited_transfer := snd_limited_transfer t + fst (can_send t)\<rparr>
      else t)"
  by (rule can_send_state)

text \<open>
  C10 as stated fails for a window probe: with \<^verbatim>\<open>dupacks = 1\<close> and \<^verbatim>\<open>window_probe\<close> set the
  call returns 1 and \<^verbatim>\<open>limited_transfer\<close> stays what it was.
\<close>

theorem can_send_probe_counterexample:
  "snd_dupacks (new_tcb\<lparr>snd_window_probe := True, snd_dupacks := 1\<rparr>) = 1
   \<and> fst (can_send (new_tcb\<lparr>snd_window_probe := True, snd_dupacks := 1\<rparr>)) = 1
   \<and> snd_limited_transfer (snd (can_send (new_tcb\<lparr>snd_window_probe := True, snd_dupacks := 1\<rparr>)))
       \<noteq> snd_limited_transfer (new_tcb\<lparr>snd_window_probe := True, snd_dupacks := 1\<rparr>)
         + fst (can_send (new_tcb\<lparr>snd_window_probe := True, snd_dupacks := 1\<rparr>))"
  by (simp add: can_send_def new_tcb_def)

section \<open>Tearing a connection down\<close>

text \<open>
  What \<^verbatim>\<open>cleanup()\<close> does, for C2: the four queues are emptied, the retransmit and the
  delayed-ACK timer are cancelled, the entry of the TCB is erased from \<^verbatim>\<open>_tcbs\<close>, and the
  persist timer is left as it was.
\<close>

theorem cleanup_keeps_persist_timer:
  "persist_timer (fst (cleanup (t, s))) = persist_timer t
   \<and> snd_unsent (fst (cleanup (t, s))) = [] \<and> snd_data (fst (cleanup (t, s))) = []
   \<and> rcv_data (fst (cleanup (t, s))) = [] \<and> rcv_out_of_order (fst (cleanup (t, s))) = []
   \<and> retransmit_timer (fst (cleanup (t, s))) = None
   \<and> delayed_ack_timer (fst (cleanup (t, s))) = None
   \<and> tcbs (snd (cleanup (t, s))) (tcb_connid t) = None"
  by (simp add: cleanup_eq)

text \<open>
  C2 at a TCB whose persist timer is armed: after \<^verbatim>\<open>cleanup()\<close> it is still armed.
\<close>

theorem cleanup_persist_armed:
  "persist_timer (fst (cleanup (new_tcb\<lparr>persist_timer := Some 5000\<rparr>, new_tcp))) = Some 5000
   \<and> retransmit_timer (fst (cleanup (new_tcb\<lparr>persist_timer := Some 5000\<rparr>, new_tcp))) = None
   \<and> delayed_ack_timer (fst (cleanup (new_tcb\<lparr>persist_timer := Some 5000\<rparr>, new_tcp))) = None"
  by (simp add: cleanup_eq)

section \<open>Resets\<close>

lemma segment_len_reset [simp]: "segment_len (reset_segment e rth lip fip) = 20"
  by (simp add: reset_segment_def segment_len_def Let_def)

text \<open>
  C9.  \<^verbatim>\<open>respond_with_reset\<close> leaves everything as it is when the inbound segment has RST
  set.  Otherwise the packet it hands to \<^verbatim>\<open>send_packet_without_tcb\<close> has RST set and the ports
  of the inbound segment swapped; its SEQ is the inbound ACK number when the inbound ACK flag is
  set; its ACK is the inbound SEQ plus one, with the ACK flag on, when the inbound SYN flag is
  set.  With room in the queue and L2 resolution at hand the packet joins the stray queue.
\<close>

theorem respond_with_reset_spec:
  "(f_rst rth \<longrightarrow> respond_with_reset e rth lip fip s = s)
   \<and> (\<not> f_rst rth \<longrightarrow>
        respond_with_reset e rth lip fip s
          = send_packet_without_tcb e lip fip (reset_segment e rth lip fip) s
        \<and> f_rst (seg_hdr (reset_segment e rth lip fip))
        \<and> src_port (seg_hdr (reset_segment e rth lip fip)) = dst_port rth
        \<and> dst_port (seg_hdr (reset_segment e rth lip fip)) = src_port rth
        \<and> (f_ack rth \<longrightarrow> seq (seg_hdr (reset_segment e rth lip fip)) = ack rth)
        \<and> (f_syn rth \<longrightarrow> ack (seg_hdr (reset_segment e rth lip fip)) = seq rth + 1
                         \<and> f_ack (seg_hdr (reset_segment e rth lip fip)))
        \<and> (20 \<le> sem_count (queue_space s) \<longrightarrow> get_l2_dst_address e fip = Some dst \<longrightarrow>
             stray_packetq (respond_with_reset e rth lip fip s)
               = stray_packetq s @ [\<lparr>l4_to = fip, l4_p = reset_segment e rth lip fip,
                                      l4_e_dst = Some dst, l4_proto_num = Some tcp\<rparr>]))"
  by (simp add: respond_with_reset_def reset_segment_def Let_def send_packet_without_tcb_def
      try_wait_def segment_len_def)

theorem respond_with_reset_witness:
  "\<not> f_rst stray_syn \<and> f_syn stray_syn \<and> f_ack stray_syn
   \<and> respond_with_reset example_env (stray_syn\<lparr>f_rst := True\<rparr>) 1 2 new_tcp = new_tcp
   \<and> f_rst (seg_hdr (reset_segment example_env stray_syn 1 2))
   \<and> src_port (seg_hdr (reset_segment example_env stray_syn 1 2)) = 80
   \<and> dst_port (seg_hdr (reset_segment example_env stray_syn 1 2)) = 40000
   \<and> seq (seg_hdr (reset_segment example_env stray_syn 1 2)) = 77
   \<and> ack (seg_hdr (reset_segment example_env stray_syn 1 2)) = 1001
   \<and> f_ack (seg_hdr (reset_segment example_env stray_syn 1 2))
   \<and> stray_packetq (respond_with_reset example_env stray_syn 1 2 new_tcp)
       = [\<lparr>l4_to = 2, l4_p = reset_segment example_env stray_syn 1 2,
           l4_e_dst = Some 0, l4_proto_num = Some tcp\<rparr>]"
proof -
  have a: "\<not> f_rst stray_syn" "f_syn stray_syn" "f_ack stray_syn"
    "f_rst (stray_syn\<lparr>f_rst := True\<rparr>)"
    by (simp_all add: stray_syn_def zero_hdr_def)
  have b: "20 \<le> sem_count (queue_space new_tcp)" "get_l2_dst_address example_env 2 = Some 0"
    by (simp_all add: new_tcp_simps example_env_simps)
  have v: "dst_port stray_syn = 80" "src_port stray_syn = 40000" "ack stray_syn = 77"
    "seq stray_syn + 1 = 1001" "stray_packetq new_tcp = []"
    by (simp_all add: stray_syn_def zero_hdr_def new_tcp_simps)
  from respond_with_reset_spec[of "stray_syn\<lparr>f_rst := True\<rparr>" example_env 1 2 new_tcp] a
  have 1: "respond_with_reset example_env (stray_syn\<lparr>f_rst := True\<rparr>) 1 2 new_tcp = new_tcp"
    by blast
  from respond_with_reset_spec[of stray_syn example_env 1 2 new_tcp 0] a b
  have 2: "f_rst (seg_hdr (reset_segment example_env stray_syn 1 2))
     \<and> src_port (seg_hdr (reset_segment example_env stray_syn 1 2)) = dst_port stray_syn
     \<and> dst_port (seg_hdr (reset_segment example_env stray_syn 1 2)) = src_port stray_syn
     \<and> seq (seg_hdr (reset_segment example_env stray_syn 1 2)) = ack stray_syn
     \<and> ack (seg_hdr (reset_segment example_env stray_syn 1 2)) = seq stray_syn + 1
     \<and> f_ack (seg_hdr (reset_segment example_env stray_syn 1 2))
     \<and> stray_packetq (respond_with_reset example_env stray_syn 1 2 new_tcp)
         = stray_packetq new_tcp @ [\<lparr>l4_to = 2, l4_p = reset_segment example_env stray_syn 1 2,
                                       l4_e_dst = Some 0, l4_proto_num = Some tcp\<rparr>]"
    by blast
  show ?thesis using a 1 2 by (simp add: v)
qed

section \<open>The retransmission timeout stays in range\<close>

lemma rto_update_rto:
  "rto (update_rto now tx t) =
     min (max (snd_srtt (update_rto now tx t)
               + max rto_clk_granularity (4 * snd_rttvar (update_rto now tx t))) rto_min) rto_max"
  unfolding update_rto_def Let_def by (simp split del: if_split)

lemma update_rto_in_range: "rto_in_range (update_rto now tx t)"
  by (simp add: rto_in_range_def rto_update_rto rto_min_def rto_max_def)

lemma rto_update_cwnd: "update_cwnd n t = Some t' \<Longrightarrow> rto t' = rto t"
  by (auto simp: update_cwnd_def Let_def split: if_splits)

lemma full_ack_loop_rto:
  "rto_in_range t \<Longrightarrow> full_ack_loop now a xs n t = Some (m, t') \<Longrightarrow> rto_in_range t'"
proof (induction xs arbitrary: n t)
  case Nil
  then show ?case by simp
next
  case (Cons x xs)
  show ?case
  proof (cases "seq_le (snd_unacknowledged t + ucast (data_remaining x)) a")
    case False
    with Cons.prems show ?thesis by simp
  next
    case True
    let ?t2 = "if nr_transmits x = 0
               then update_rto now (tx_time x)
                      (t\<lparr>snd_unacknowledged := snd_unacknowledged t + ucast (data_remaining x)\<rparr>)
               else t\<lparr>snd_unacknowledged := snd_unacknowledged t + ucast (data_remaining x)\<rparr>"
    have r2: "rto_in_range ?t2"
      using Cons.prems(1) by (simp add: update_rto_in_range) (simp add: rto_in_range_def)
    from Cons.prems(2) True obtain t3 where
      c: "update_cwnd (ucast (data_remaining x)) ?t2 = Some t3" and
      l: "full_ack_loop now a xs (n + ucast (data_remaining x))
            (t3\<lparr>snd_user_queue_space := signal (unat (data_len x)) (snd_user_queue_space t3),
                snd_data := xs\<rparr>) = Some (m, t')"
      by (auto simp: Let_def split: option.splits)
    have "rto_in_range t3" using r2 rto_update_cwnd[OF c] by (simp add: rto_in_range_def)
    then have "rto_in_range (t3\<lparr>snd_user_queue_space := signal (unat (data_len x)) (snd_user_queue_space t3),
                snd_data := xs\<rparr>)" by (simp add: rto_in_range_def)
    from Cons.IH[OF this l] show ?thesis .
  qed
qed

lemma data_segment_acked_rto:
  "rto_in_range t \<Longrightarrow> data_segment_acked now a t = Some (m, t') \<Longrightarrow> rto_in_range t'"
  by (auto simp: data_segment_acked_def Let_def rto_in_range_def
      split: option.splits prod.splits if_splits list.splits
      dest!: full_ack_loop_rto[unfolded rto_in_range_def, rotated] rto_update_cwnd)


lemma rto_tcb_output: "tcb_output e (t, s) = (t', s') \<Longrightarrow> rto t' = rto t"
  by (auto simp: tcb_output_def split: if_splits)

lemma rto_cleanup: "cleanup (t, s) = (t', s') \<Longrightarrow> rto t' = rto t"
  by (auto simp: cleanup_def remove_from_tcbs_def stop_retransmit_timer_def
      clear_delayed_ack_def Let_def)

lemma rto_do_reset: "do_reset (t, s) = (t', s') \<Longrightarrow> rto t' = rto t"
  by (auto simp: do_reset_def Let_def split: prod.splits option.splits dest!: rto_cleanup)

lemma rto_do_closed: "do_closed (t, s) = (t', s') \<Longrightarrow> rto t' = rto t"
  by (auto simp: do_closed_def dest!: rto_cleanup)

lemma rto_do_time_wait: "do_time_wait (t, s) = (t', s') \<Longrightarrow> rto t' = rto t"
  by (auto simp: do_time_wait_def dest!: rto_cleanup)

lemma rto_fast_retransmit: "fast_retransmit e (t, s) = (t', s') \<Longrightarrow> rto t' = rto t"
  by (auto simp: fast_retransmit_def queue_packet_def Let_def split: list.splits
      dest!: rto_tcb_output)

lemma rto_update_window: "update_window e th a b t = Some t' \<Longrightarrow> rto t' = rto t"
  by (auto simp: update_window_def Let_def start_persist_timer_def stop_persist_timer_def
      split: option.splits if_splits)

lemma rto_set_retransmit_timer [simp]: "rto (set_retransmit_timer e t) = rto t"
  by (simp add: set_retransmit_timer_def signal_all_data_acked_def stop_retransmit_timer_def
      start_retransmit_timer_def)

lemma rto_exit_fast_recovery [simp]: "rto (exit_fast_recovery t) = rto t"
  by (simp add: exit_fast_recovery_def)

lemma rto_can_send: "can_send t = (n, t') \<Longrightarrow> rto t' = rto t"
  by (auto simp: can_send_def Let_def split: if_splits)

lemma rto_should_send_ack: "should_send_ack e n t = (b, t') \<Longrightarrow> rto t' = rto t"
  by (auto simp: should_send_ack_def Let_def split: if_splits)

lemma rto_merge_loop: "merge_loop xs b t = Some (b', t') \<Longrightarrow> rto t' = rto t"
proof (induction xs arbitrary: b t)
  case Nil
  then show ?case by simp
next
  case (Cons x xs)
  obtain sb q where x: "x = (sb, q)" by (cases x)
  from Cons.prems show ?case unfolding x
    by (auto simp: Let_def split: if_splits option.splits dest!: Cons.IH)
qed

lemma rto_merge_out_of_order: "merge_out_of_order t = Some (b', t') \<Longrightarrow> rto t' = rto t"
  by (auto simp: merge_out_of_order_def split: if_splits dest: rto_merge_loop)

lemma rto_duplicate_ack: "duplicate_ack e th (l, t, s) = (l', t', s') \<Longrightarrow> rto t' = rto t"
  by (auto simp: duplicate_ack_def Let_def split: if_splits prod.splits dest!: rto_fast_retransmit)

lemma new_data_acked_rto:
  "rto_in_range t \<Longrightarrow> new_data_acked e th (l, t, s) = Some (Continue (l', t', s'))
     \<Longrightarrow> rto_in_range t'"
  by (auto simp: new_data_acked_def Let_def rto_in_range_def start_retransmit_timer_def
      split: option.splits prod.splits if_splits
      dest!: data_segment_acked_rto[unfolded rto_in_range_def, rotated] rto_fast_retransmit
        rto_update_window)

lemma new_data_acked_no_return: "new_data_acked e th lts \<noteq> Some (Return r)"
  by (cases lts) (auto simp: new_data_acked_def Let_def split: option.splits prod.splits if_splits)


lemma ihos_sequence_cases:
  "ihos_sequence e th p0 (t, s) = Some (Return (t', s')) \<Longrightarrow> rto t' = rto t"
  "ihos_sequence e th p0 (t, s) = Some (Continue (l, t', s')) \<Longrightarrow> t' = t \<and> s' = s"
  by (auto simp: ihos_sequence_def Let_def insert_out_of_order_def
      split: option.splits if_splits prod.splits dest!: rto_tcb_output)

lemma ihos_rst_syn_cases:
  "ihos_rst_syn e th (t, s) = Return (t', s') \<Longrightarrow> rto t' = rto t"
  "ihos_rst_syn e th (t, s) = Continue (t', s') \<Longrightarrow> t' = t \<and> s' = s"
  by (auto simp: ihos_rst_syn_def tcb_respond_with_reset_def
      split: if_splits dest!: rto_do_reset rto_do_closed)

lemma rto_do_established: "rto_in_range (do_established e t)"
  using update_rto_in_range by (simp add: do_established_def Let_def rto_in_range_def)

lemma ihos_ack_rto:
  assumes "rto_in_range t"
  shows "ihos_ack e th (l, t, s) = Some (Return (t', s')) \<Longrightarrow> rto_in_range t'"
    and "ihos_ack e th (l, t, s) = Some (Continue (l', t', s')) \<Longrightarrow> rto_in_range t'"
  using assms rto_do_established[of e t]
  by (auto simp: ihos_ack_def Let_def rto_in_range_def tcb_respond_with_reset_def
      do_local_fin_acked_def new_data_acked_no_return
      split: if_splits option.splits flow.splits prod.splits
      dest!: new_data_acked_rto[unfolded rto_in_range_def, rotated] rto_duplicate_ack
        rto_tcb_output rto_do_time_wait rto_do_closed rto_update_window)


lemma ihos_text_rto:
  "ihos_text e (l, t, s) = Some (Return (t', s')) \<Longrightarrow> rto t' = rto t"
  "ihos_text e (l, t, s) = Some (Continue (l', t', s')) \<Longrightarrow> rto t' = rto t"
  by (auto simp: ihos_text_def Let_def signal_data_received_def
      split: if_splits option.splits prod.splits
      dest!: rto_merge_out_of_order rto_should_send_ack)

lemma ihos_fin_rto:
  "ihos_fin e th (l, t, s) = Return (t', s') \<Longrightarrow> rto t' = rto t"
  "ihos_fin e th (l, t, s) = Continue (l', t', s') \<Longrightarrow> rto t' = rto t"
  by (auto simp: ihos_fin_def Let_def signal_data_received_def clear_delayed_ack_def
      split: if_splits option.splits prod.splits
      dest!: rto_tcb_output rto_do_time_wait)

lemma ihos_output_rto: "ihos_output e (l, t, s) = (t', s') \<Longrightarrow> rto t' = rto t"
  by (auto simp: ihos_output_def Let_def clear_delayed_ack_def
      split: if_splits prod.splits dest!: rto_tcb_output rto_can_send)

lemma input_handle_other_state_rto:
  assumes r: "rto_in_range t"
    and h: "input_handle_other_state e th p0 (t, s) = Some (t', s')"
  shows "rto_in_range t'"
proof (cases "ihos_sequence e th p0 (t, s)")
  case None
  with h show ?thesis by (simp add: input_handle_other_state_def)
next
  case (Some f1)
  show ?thesis
  proof (cases f1)
    case (Return r1)
    with Some h have "ihos_sequence e th p0 (t, s) = Some (Return (t', s'))"
      by (simp add: input_handle_other_state_def)
    from ihos_sequence_cases(1)[OF this] r show ?thesis by (simp add: rto_in_range_def)
  next
    case (Continue c1)
    obtain l t1 s1 where c1: "c1 = (l, t1, s1)" by (cases c1)
    from ihos_sequence_cases(2)[of e th p0 t s l t1 s1] Some Continue c1
    have eq1: "t1 = t" "s1 = s" by auto
    show ?thesis
    proof (cases "ihos_rst_syn e th (t, s)")
      case (Return r2)
      with Some Continue c1 eq1 h have "ihos_rst_syn e th (t, s) = Return (t', s')"
        by (simp add: input_handle_other_state_def)
      from ihos_rst_syn_cases(1)[OF this] r show ?thesis by (simp add: rto_in_range_def)
    next
      case c2: (Continue c2)
      with ihos_rst_syn_cases(2)[of e th t s "fst c2" "snd c2"]
      have c2eq: "c2 = (t, s)" by (cases c2) auto
      show ?thesis
      proof (cases "ihos_ack e th (l, t, s)")
        case None
        with Some Continue c1 eq1 c2 c2eq h show ?thesis
          by (simp add: input_handle_other_state_def)
      next
        case s3: (Some f3)
        show ?thesis
        proof (cases f3)
          case (Return r3)
          with Some Continue c1 eq1 c2 c2eq s3 h
          have "ihos_ack e th (l, t, s) = Some (Return (t', s'))"
            by (simp add: input_handle_other_state_def)
          from ihos_ack_rto(1)[OF r this] show ?thesis .
        next
          case c3: (Continue c3)
          obtain l3 t3 s3' where c3eq: "c3 = (l3, t3, s3')" by (cases c3)
          have r3: "rto_in_range t3"
            using ihos_ack_rto(2)[OF r, of e th l s l3 t3 s3'] s3 c3 c3eq by simp
          from Some Continue c1 eq1 c2 c2eq s3 c3 c3eq h
          have h4: "(case ihos_text e (l3, t3, s3') of
                       None \<Rightarrow> None
                     | Some (Return r) \<Rightarrow> Some r
                     | Some (Continue lts) \<Rightarrow>
                         (case ihos_fin e th lts of
                            Return r \<Rightarrow> Some r
                          | Continue lts \<Rightarrow> Some (ihos_output e lts))) = Some (t', s')"
            by (simp add: input_handle_other_state_def)
          then have "rto t' = rto t3"
            by (auto split: option.splits flow.splits
                dest!: ihos_text_rto ihos_fin_rto ihos_output_rto)
          with r3 show ?thesis by (simp add: rto_in_range_def)
        qed
      qed
    qed
  qed
qed


lemma output_update_rto_rto:
  "rto (fst (output_update_rto e (t, s))) = backoff (rto t)"
  by (auto simp: output_update_rto_def Let_def start_retransmit_timer_def backoff_def
      split: prod.splits dest!: rto_tcb_output)

lemma backoff_in_range:
  "rto_min \<le> r \<Longrightarrow> rto_min \<le> backoff r \<and> backoff r \<le> rto_max"
  by (simp add: rto_min_def rto_max_def backoff_def)

lemma retransmit_syn_rto:
  "retransmit_syn e (t, s) = Return (t', s') \<Longrightarrow> rto t' = rto t"
  "retransmit_syn e (t, s) = Continue (t', s') \<Longrightarrow> rto t' = rto t \<or> rto t' = backoff (rto t)"
  using output_update_rto_rto[of e "t\<lparr>snd_syn_retransmit := snd_syn_retransmit t + 1\<rparr>" s]
  by (auto simp: retransmit_syn_def Let_def split: if_splits dest!: rto_cleanup)

lemma retransmit_fin_rto:
  "retransmit_fin e (t, s) = Return (t', s') \<Longrightarrow> rto t' = rto t"
  "retransmit_fin e (t, s) = Continue (t', s') \<Longrightarrow> rto t' = rto t \<or> rto t' = backoff (rto t)"
  using output_update_rto_rto[of e "t\<lparr>snd_fin_retransmit := snd_fin_retransmit t + 1\<rparr>" s]
  by (auto simp: retransmit_fin_def Let_def split: if_splits dest!: rto_cleanup)

lemma retransmit_data_rto:
  "retransmit_data e (t, s) = (t', s') \<Longrightarrow> rto t' = rto t \<or> rto t' = backoff (rto t)"
  by (auto simp: retransmit_data_def Let_def exit_fast_recovery_def queue_packet_def
      output_update_rto_def start_retransmit_timer_def backoff_def
      split: if_splits list.splits prod.splits dest!: rto_cleanup rto_tcb_output)

lemma retransmit_rto:
  "rto (fst (retransmit e (t, s))) \<in>
     {rto t, backoff (rto t), backoff (backoff (rto t)), backoff (backoff (backoff (rto t)))}"
proof (cases "retransmit_syn e (t, s)")
  case (Return r)
  then show ?thesis using retransmit_syn_rto(1)[of e t s "fst r" "snd r"]
    by (simp add: retransmit_def)
next
  case (Continue c1)
  then have 1: "rto (fst c1) = rto t \<or> rto (fst c1) = backoff (rto t)"
    using retransmit_syn_rto(2)[of e t s "fst c1" "snd c1"] by simp
  show ?thesis
  proof (cases "retransmit_fin e c1")
    case (Return r)
    then have "rto (fst r) = rto (fst c1)"
      using retransmit_fin_rto(1)[of e "fst c1" "snd c1" "fst r" "snd r"] by simp
    with 1 Return \<open>retransmit_syn e (t, s) = Continue c1\<close> show ?thesis
      by (auto simp: retransmit_def)
  next
    case c2: (Continue c2)
    then have 2: "rto (fst c2) = rto (fst c1) \<or> rto (fst c2) = backoff (rto (fst c1))"
      using retransmit_fin_rto(2)[of e "fst c1" "snd c1" "fst c2" "snd c2"] by simp
    have 3: "rto (fst (retransmit_data e c2)) = rto (fst c2)
             \<or> rto (fst (retransmit_data e c2)) = backoff (rto (fst c2))"
      using retransmit_data_rto[of e "fst c2" "snd c2" "fst (retransmit_data e c2)"
          "snd (retransmit_data e c2)"] by simp
    have "retransmit e (t, s) = retransmit_data e c2"
      using c2 \<open>retransmit_syn e (t, s) = Continue c1\<close> by (simp add: retransmit_def)
    with 1 2 3 show ?thesis by auto
  qed
qed

lemma retransmit_in_range:
  "rto_in_range t \<Longrightarrow> rto_in_range (fst (retransmit e (t, s)))"
  using retransmit_rto[of e t s] backoff_in_range[of "rto t"]
    backoff_in_range[of "backoff (rto t)"] backoff_in_range[of "backoff (backoff (rto t))"]
  by (auto simp: rto_in_range_def)


lemma persist_eq:
  "persist_time_out (fst (persist e (t, s))) = min (persist_time_out t * 2) rto_max
   \<and> rto (fst (persist e (t, s))) = rto t
   \<and> persist_timer (fst (persist e (t, s))) = Some (clock_now e + min (persist_time_out t * 2) rto_max)"
  by (simp add: persist_def Let_def start_persist_timer_def tcb_output_eq output_one_frame)

lemma get_packet_rto: "get_packet e (t, s) = Some (q, t', s') \<Longrightarrow> rto t' = rto t"
  by (auto simp: get_packet_def Let_def output_one_frame tcb_output_eq
      split: if_splits list.splits prod.splits dest!: rto_can_send)

text \<open>
  C7.  After \<^verbatim>\<open>update_rto\<close> the timeout is \<^verbatim>\<open>srtt + max(1 ms, 4*rttvar)\<close> clamped into
  [1 s, 60 s].  The back-off of the retransmit callback (\<^verbatim>\<open>output_update_rto\<close>) and the back-off
  of the persist callback never leave more than 60 s.  So the RTO is in [1 s, 60 s] in a new
  TCB and stays there under \<^verbatim>\<open>update_rto\<close>, the retransmit callback, the persist callback,
  \<^verbatim>\<open>get_packet\<close> and \<^verbatim>\<open>input_handle_other_state\<close>.
\<close>

theorem rto_always_in_range:
  "rto (update_rto now tx t) =
     min (max (snd_srtt (update_rto now tx t)
               + max rto_clk_granularity (4 * snd_rttvar (update_rto now tx t))) rto_min) rto_max
   \<and> rto_in_range (update_rto now tx t)
   \<and> rto (fst (output_update_rto e (t, s))) = min (rto t * 2) rto_max
   \<and> rto (fst (output_update_rto e (t, s))) \<le> rto_max
   \<and> rto (fst (retransmit e (t, s)))
       \<in> {rto t, backoff (rto t), backoff (backoff (rto t)), backoff (backoff (backoff (rto t)))}
   \<and> backoff r \<le> rto_max
   \<and> persist_time_out (fst (persist e (t, s))) = min (persist_time_out t * 2) rto_max
   \<and> persist_time_out (fst (persist e (t, s))) \<le> rto_max
   \<and> rto (fst (persist e (t, s))) = rto t
   \<and> rto_in_range new_tcb
   \<and> (rto_in_range t \<longrightarrow> rto_in_range (fst (output_update_rto e (t, s))))
   \<and> (rto_in_range t \<longrightarrow> rto_in_range (fst (retransmit e (t, s))))
   \<and> (rto_in_range t \<longrightarrow>
        (\<forall>r. input_handle_other_state e th p0 (t, s) = Some r \<longrightarrow> rto_in_range (fst r)))
   \<and> (\<forall>q r. get_packet e (t, s) = Some (q, r) \<longrightarrow> rto (fst r) = rto t)"
proof -
  have c1: "rto (update_rto now tx t) =
     min (max (snd_srtt (update_rto now tx t)
               + max rto_clk_granularity (4 * snd_rttvar (update_rto now tx t))) rto_min) rto_max"
    by (rule rto_update_rto)
  have c2: "rto_in_range (update_rto now tx t)" by (rule update_rto_in_range)
  have c3: "rto (fst (output_update_rto e (t, s))) = min (rto t * 2) rto_max"
    using output_update_rto_rto[of e t s] by (simp add: backoff_def)
  have c4: "rto (fst (output_update_rto e (t, s))) \<le> rto_max" unfolding c3 by simp
  have c5: "rto (fst (retransmit e (t, s)))
       \<in> {rto t, backoff (rto t), backoff (backoff (rto t)), backoff (backoff (backoff (rto t)))}"
    by (rule retransmit_rto)
  have c6: "backoff r \<le> rto_max" by (simp add: backoff_def)
  have c7: "persist_time_out (fst (persist e (t, s))) = min (persist_time_out t * 2) rto_max"
    using persist_eq[of e t s] by blast
  have c8: "persist_time_out (fst (persist e (t, s))) \<le> rto_max" unfolding c7 by simp
  have c9: "rto (fst (persist e (t, s))) = rto t" using persist_eq[of e t s] by blast
  have c10: "rto_in_range new_tcb"
    by (simp add: rto_in_range_def new_tcb_simps rto_min_def rto_max_def)
  have c11: "rto_in_range t \<longrightarrow> rto_in_range (fst (output_update_rto e (t, s)))"
    using backoff_in_range[of "rto t"] by (simp add: rto_in_range_def c3 backoff_def)
  have c12: "rto_in_range t \<longrightarrow> rto_in_range (fst (retransmit e (t, s)))"
    using retransmit_in_range[of t e s] by blast
  have c13: "rto_in_range t \<longrightarrow>
        (\<forall>r. input_handle_other_state e th p0 (t, s) = Some r \<longrightarrow> rto_in_range (fst r))"
  proof (intro impI allI)
    fix r
    assume "rto_in_range t" "input_handle_other_state e th p0 (t, s) = Some r"
    then show "rto_in_range (fst r)"
      using input_handle_other_state_rto[of t e th p0 s "fst r" "snd r"] by simp
  qed
  have c14: "\<forall>q r. get_packet e (t, s) = Some (q, r) \<longrightarrow> rto (fst r) = rto t"
  proof (intro impI allI)
    fix q r
    assume "get_packet e (t, s) = Some (q, r)"
    then show "rto (fst r) = rto t"
      using get_packet_rto[of e t s q "fst r" "snd r"] by simp
  qed
  show ?thesis
    by (intro conjI c1 c2 c3 c4 c5 c6 c7 c8 c9 c10 c11 c12 c13 c14)
qed

section \<open>The retransmit timer\<close>

lemma output_update_rto_eq:
  "output_update_rto e (t, s) =
     (t\<lparr>poll_active := True, rto := min (rto t * 2) rto_max,
        retransmit_timer := Some (clock_now e + min (rto t * 2) rto_max)\<rparr>,
      if poll_active t then s else poll_tcb e (foreign_ip t) (this t) s)"
  by (simp add: output_update_rto_def tcb_output_def Let_def start_retransmit_timer_def)

lemma retransmit_syn_pending:
  assumes "syn_needs_on t" "snd_syn_retransmit t < 5"
  shows "retransmit e (t, s) =
     retransmit_data e (output_update_rto e (t\<lparr>snd_syn_retransmit := snd_syn_retransmit t + 1\<rparr>, s))"
proof -
  have "\<not> fin_needs_on (t\<lparr>snd_syn_retransmit := snd_syn_retransmit t + 1, poll_active := True,
           rto := min (rto t * 2) rto_max,
           retransmit_timer := Some (clock_now e + min (rto t * 2) rto_max)\<rparr>)"
    using syn_not_fin[OF assms(1)] by simp
  with assms show ?thesis
    by (simp add: retransmit_def retransmit_syn_def retransmit_fin_def Let_def
        output_update_rto_eq max_nr_retransmit_def)
qed

lemma retransmit_data_eq:
  "snd_data t = sg # rest \<Longrightarrow>
     retransmit_data e (t, s) =
       (let t1 = t\<lparr>snd_ssthresh := (if nr_transmits sg = 0
                                     then max (flight_size t div 2) (2 * ucast (snd_mss t))
                                     else snd_ssthresh t),
                    snd_recover := snd_next t - 1, snd_cwnd := ucast (snd_mss t),
                    snd_dupacks := 0, snd_limited_transfer := 0, snd_partial_ack := 0\<rparr>
        in if nr_transmits sg < 5
           then output_update_rto e
                  (t1\<lparr>snd_data := sg\<lparr>nr_transmits := nr_transmits sg + 1\<rparr> # rest,
                      packetq := packetq t @ [\<lparr>l4_to = foreign_ip t, l4_p = pkt sg,
                                               l4_e_dst = None, l4_proto_num = None\<rparr>]\<rparr>, s)
           else cleanup (t1, s))"
  by (simp add: retransmit_data_def Let_def exit_fast_recovery_def queue_packet_def
      max_nr_retransmit_def)

text \<open>
  C6, as the code has it.  With a SYN pending and \<^verbatim>\<open>syn_retransmit\<close> below 5, the counter is
  incremented, output is scheduled and the RTO is doubled with the cap of 60 s (the lambda
  \<^verbatim>\<open>output_update_rto\<close>); then the callback goes on to the data block, which is all there is
  to it when \<^verbatim>\<open>SND.data\<close> is empty.  With \<^verbatim>\<open>syn_retransmit\<close> at 5 or more, \<^verbatim>\<open>connect_done\<close> is
  resolved with \<^verbatim>\<open>tcp_connect_error\<close> and \<^verbatim>\<open>cleanup\<close> runs.  With no SYN and no FIN pending the
  callback is the data block.  The data block, with unacked data: \<^verbatim>\<open>ssthresh\<close> becomes
  \<^verbatim>\<open>max(flight_size/2, 2*smss)\<close> when the oldest segment has \<^verbatim>\<open>nr_transmits = 0\<close>; in every case
  \<^verbatim>\<open>recover\<close> becomes \<^verbatim>\<open>SND.NXT - 1\<close>, \<^verbatim>\<open>cwnd\<close> becomes \<^verbatim>\<open>smss\<close> and fast recovery is left; then,
  with \<^verbatim>\<open>nr_transmits\<close> below 5, the stored packet is queued again as it is, the count goes up
  by one and \<^verbatim>\<open>output_update_rto\<close> runs, else \<^verbatim>\<open>cleanup\<close> runs.
\<close>

theorem retransmit_behaviour:
  "(syn_needs_on t \<and> snd_syn_retransmit t < 5 \<longrightarrow>
      retransmit e (t, s) =
        retransmit_data e
          (output_update_rto e (t\<lparr>snd_syn_retransmit := snd_syn_retransmit t + 1\<rparr>, s))
      \<and> (snd_data t = [] \<longrightarrow>
           retransmit e (t, s) =
             output_update_rto e (t\<lparr>snd_syn_retransmit := snd_syn_retransmit t + 1\<rparr>, s)))
   \<and> (syn_needs_on t \<and> \<not> snd_syn_retransmit t < 5 \<longrightarrow>
      retransmit e (t, s) =
        cleanup (t\<lparr>snd_syn_retransmit := snd_syn_retransmit t + 1,
                   connect_done_promise := Exception tcp_connect_error\<rparr>, s))
   \<and> (\<not> syn_needs_on t \<and> \<not> fin_needs_on t \<longrightarrow>
      retransmit e (t, s) = retransmit_data e (t, s))
   \<and> output_update_rto e (t, s) =
       (t\<lparr>poll_active := True, rto := min (rto t * 2) rto_max,
          retransmit_timer := Some (clock_now e + min (rto t * 2) rto_max)\<rparr>,
        if poll_active t then s else poll_tcb e (foreign_ip t) (this t) s)
   \<and> (snd_data t = sg # rest \<longrightarrow>
      retransmit_data e (t, s) =
       (let t1 = t\<lparr>snd_ssthresh := (if nr_transmits sg = 0
                                     then max (flight_size t div 2) (2 * ucast (snd_mss t))
                                     else snd_ssthresh t),
                    snd_recover := snd_next t - 1, snd_cwnd := ucast (snd_mss t),
                    snd_dupacks := 0, snd_limited_transfer := 0, snd_partial_ack := 0\<rparr>
        in if nr_transmits sg < 5
           then output_update_rto e
                  (t1\<lparr>snd_data := sg\<lparr>nr_transmits := nr_transmits sg + 1\<rparr> # rest,
                      packetq := packetq t @ [\<lparr>l4_to = foreign_ip t, l4_p = pkt sg,
                                               l4_e_dst = None, l4_proto_num = None\<rparr>]\<rparr>, s)
           else cleanup (t1, s)))"
proof (intro conjI impI)
  assume a: "syn_needs_on t \<and> snd_syn_retransmit t < 5"
  then show 1: "retransmit e (t, s) =
        retransmit_data e
          (output_update_rto e (t\<lparr>snd_syn_retransmit := snd_syn_retransmit t + 1\<rparr>, s))"
    by (simp add: retransmit_syn_pending)
  assume "snd_data t = []"
  then show "retransmit e (t, s) =
             output_update_rto e (t\<lparr>snd_syn_retransmit := snd_syn_retransmit t + 1\<rparr>, s)"
    unfolding 1 by (simp add: output_update_rto_eq retransmit_data_def)
next
  assume "syn_needs_on t \<and> \<not> snd_syn_retransmit t < 5"
  then show "retransmit e (t, s) =
        cleanup (t\<lparr>snd_syn_retransmit := snd_syn_retransmit t + 1,
                   connect_done_promise := Exception tcp_connect_error\<rparr>, s)"
    by (simp add: retransmit_def retransmit_syn_def Let_def max_nr_retransmit_def)
next
  assume "\<not> syn_needs_on t \<and> \<not> fin_needs_on t"
  then show "retransmit e (t, s) = retransmit_data e (t, s)"
    by (simp add: retransmit_def retransmit_syn_def retransmit_fin_def)
next
  show "output_update_rto e (t, s) =
       (t\<lparr>poll_active := True, rto := min (rto t * 2) rto_max,
          retransmit_timer := Some (clock_now e + min (rto t * 2) rto_max)\<rparr>,
        if poll_active t then s else poll_tcb e (foreign_ip t) (this t) s)"
    by (rule output_update_rto_eq)
next
  assume "snd_data t = sg # rest"
  then show "retransmit_data e (t, s) =
       (let t1 = t\<lparr>snd_ssthresh := (if nr_transmits sg = 0
                                     then max (flight_size t div 2) (2 * ucast (snd_mss t))
                                     else snd_ssthresh t),
                    snd_recover := snd_next t - 1, snd_cwnd := ucast (snd_mss t),
                    snd_dupacks := 0, snd_limited_transfer := 0, snd_partial_ack := 0\<rparr>
        in if nr_transmits sg < 5
           then output_update_rto e
                  (t1\<lparr>snd_data := sg\<lparr>nr_transmits := nr_transmits sg + 1\<rparr> # rest,
                      packetq := packetq t @ [\<lparr>l4_to = foreign_ip t, l4_p = pkt sg,
                                               l4_e_dst = None, l4_proto_num = None\<rparr>]\<rparr>, s)
           else cleanup (t1, s))"
    by (rule retransmit_data_eq)
qed


theorem retransmit_behaviour_witness:
  "syn_needs_on (new_tcb\<lparr>state := SYN_SENT\<rparr>)
   \<and> snd_syn_retransmit (new_tcb\<lparr>state := SYN_SENT\<rparr>) < 5
   \<and> snd_data (new_tcb\<lparr>state := SYN_SENT\<rparr>) = []
   \<and> rto (fst (retransmit example_env (new_tcb\<lparr>state := SYN_SENT\<rparr>, new_tcp))) = 2000
   \<and> snd_syn_retransmit (fst (retransmit example_env (new_tcb\<lparr>state := SYN_SENT\<rparr>, new_tcp))) = 1
   \<and> poll_active (fst (retransmit example_env (new_tcb\<lparr>state := SYN_SENT\<rparr>, new_tcp)))
   \<and> syn_needs_on (new_tcb\<lparr>state := SYN_SENT, snd_syn_retransmit := 5\<rparr>)
   \<and> \<not> snd_syn_retransmit (new_tcb\<lparr>state := SYN_SENT, snd_syn_retransmit := 5\<rparr>) < 5
   \<and> connect_done_promise
        (fst (retransmit example_env
               (new_tcb\<lparr>state := SYN_SENT, snd_syn_retransmit := 5\<rparr>, new_tcp)))
       = Exception tcp_connect_error
   \<and> \<not> syn_needs_on est_tcb \<and> \<not> fin_needs_on est_tcb
   \<and> snd_data est_tcb = [example_unacked]
   \<and> snd_ssthresh (fst (retransmit example_env (est_tcb, new_tcp))) = 2920
   \<and> snd_cwnd (fst (retransmit example_env (est_tcb, new_tcp))) = 1460
   \<and> snd_recover (fst (retransmit example_env (est_tcb, new_tcp))) = 7103
   \<and> snd_dupacks (fst (retransmit example_env (est_tcb, new_tcp))) = 0
   \<and> map pkt (snd_data (fst (retransmit example_env (est_tcb, new_tcp)))) = [example_segment]
   \<and> map nr_transmits (snd_data (fst (retransmit example_env (est_tcb, new_tcp)))) = [1]
   \<and> map l4_p (packetq (fst (retransmit example_env (est_tcb, new_tcp)))) = [example_segment]
   \<and> rto (fst (retransmit example_env (est_tcb, new_tcp))) = 2000"
proof -
  have a: "syn_needs_on (new_tcb\<lparr>state := SYN_SENT\<rparr>)"
    "snd_syn_retransmit (new_tcb\<lparr>state := SYN_SENT\<rparr>) < 5"
    "snd_data (new_tcb\<lparr>state := SYN_SENT\<rparr>) = []"
    "syn_needs_on (new_tcb\<lparr>state := SYN_SENT, snd_syn_retransmit := 5\<rparr>)"
    "\<not> snd_syn_retransmit (new_tcb\<lparr>state := SYN_SENT, snd_syn_retransmit := 5\<rparr>) < 5"
    "\<not> syn_needs_on est_tcb" "\<not> fin_needs_on est_tcb" "snd_data est_tcb = [example_unacked]"
    by (simp_all add: syn_needs_on_iff fin_needs_on_def in_state_def new_tcb_simps est_tcb_def)
  have 1: "retransmit example_env (new_tcb\<lparr>state := SYN_SENT\<rparr>, new_tcp) =
      output_update_rto example_env
        (new_tcb\<lparr>state := SYN_SENT,
                 snd_syn_retransmit := snd_syn_retransmit (new_tcb\<lparr>state := SYN_SENT\<rparr>) + 1\<rparr>,
         new_tcp)"
    using retransmit_behaviour[of "new_tcb\<lparr>state := SYN_SENT\<rparr>" example_env new_tcp] a
    by blast
  have 2: "retransmit example_env (new_tcb\<lparr>state := SYN_SENT, snd_syn_retransmit := 5\<rparr>, new_tcp)
      = cleanup (new_tcb\<lparr>state := SYN_SENT, snd_syn_retransmit := 5,
                   snd_syn_retransmit :=
                     snd_syn_retransmit (new_tcb\<lparr>state := SYN_SENT, snd_syn_retransmit := 5\<rparr>) + 1,
                   connect_done_promise := Exception tcp_connect_error\<rparr>, new_tcp)"
    using retransmit_behaviour[of "new_tcb\<lparr>state := SYN_SENT, snd_syn_retransmit := 5\<rparr>"
        example_env new_tcp] a
    by blast
  have 3: "retransmit example_env (est_tcb, new_tcp) = retransmit_data example_env (est_tcb, new_tcp)"
    using retransmit_behaviour[of est_tcb example_env new_tcp] a by blast
  have f: "flight_size est_tcb = 3" "snd_mss est_tcb = 1460" "snd_next est_tcb = 7104"
    "packetq est_tcb = []" "rto est_tcb = 1000"
    by (simp_all add: flight_size_def est_tcb_def new_tcb_simps example_unacked_simps)
  show ?thesis
    unfolding 1 2 3 retransmit_data_eq[OF a(8)] Let_def
    by (simp add: a output_update_rto_eq cleanup_eq new_tcb_simps rto_max_def f
        example_unacked_simps)
qed

text \<open>
  C6 as stated fails when the timer fires in \<^verbatim>\<open>SYN_RECEIVED\<close> with data in flight: the SYN
  block and the data block both back off, and the RTO of 1000 ms becomes 4000 ms, not 2000 ms.
\<close>

theorem retransmit_syn_with_data_counterexample:
  "syn_needs_on (new_tcb\<lparr>state := SYN_RECEIVED, snd_data := [example_unacked]\<rparr>)
   \<and> snd_syn_retransmit (new_tcb\<lparr>state := SYN_RECEIVED, snd_data := [example_unacked]\<rparr>) < 5
   \<and> rto (new_tcb\<lparr>state := SYN_RECEIVED, snd_data := [example_unacked]\<rparr>) = 1000
   \<and> rto (fst (retransmit example_env
              (new_tcb\<lparr>state := SYN_RECEIVED, snd_data := [example_unacked]\<rparr>, new_tcp))) = 4000
   \<and> rto (fst (retransmit example_env
              (new_tcb\<lparr>state := SYN_RECEIVED, snd_data := [example_unacked]\<rparr>, new_tcp)))
       \<noteq> min (rto (new_tcb\<lparr>state := SYN_RECEIVED, snd_data := [example_unacked]\<rparr>) * 2) rto_max"
  by (simp add: retransmit_syn_pending syn_needs_on_iff retransmit_data_eq output_update_rto_eq
      new_tcb_def example_unacked_def rto_max_def Let_def)

section \<open>The input handler on concrete segments\<close>

lemma example_tcb_simps:
  "state syn_acked_tcb = SYN_RECEIVED" "snd_unacknowledged syn_acked_tcb = 7000"
  "snd_next syn_acked_tcb = 7001" "snd_data syn_acked_tcb = []"
  "rcv_next syn_acked_tcb = 1001" "rcv_window syn_acked_tcb = 29200"
  "state est_tcb = ESTABLISHED" "snd_unacknowledged est_tcb = 7101"
  "snd_next est_tcb = 7104" "snd_data est_tcb = [example_unacked]"
  "rcv_next est_tcb = 1001" "rcv_window est_tcb = 29200" "snd_window est_tcb = 29200"
  "snd_window_scale est_tcb = 0" "snd_mss est_tcb = 1460" "snd_cwnd est_tcb = 4380"
  "snd_ssthresh est_tcb = 29200" "snd_recover est_tcb = 7000" "snd_dupacks est_tcb = 0"
  "snd_limited_transfer est_tcb = 0" "rto est_tcb = 1000" "packetq est_tcb = []"
  "poll_active est_tcb = False" "snd_window_probe est_tcb = False"
  "state fin_wait_2_tcb = FIN_WAIT_2" "snd_unacknowledged fin_wait_2_tcb = 7102"
  "snd_next fin_wait_2_tcb = 7102" "snd_data fin_wait_2_tcb = []"
  "rcv_next fin_wait_2_tcb = 1001" "rcv_window fin_wait_2_tcb = 29200"
  "rcv_data fin_wait_2_tcb = []" "rcv_out_of_order fin_wait_2_tcb = []"
  "rcv_mss fin_wait_2_tcb = 1460" "rcv_data_received_promise fin_wait_2_tcb = None"
  "nr_full_seg_received fin_wait_2_tcb = 0" "delayed_ack_timer fin_wait_2_tcb = None"
  "poll_active fin_wait_2_tcb = False"
  by (simp_all add: syn_acked_tcb_def est_tcb_def fin_wait_2_tcb_def new_tcb_simps)

lemma seq_simps:
  "seq_lt a b = (sint (a - b) < 0)" "seq_gt a b = (sint (b - a) < 0)"
  "seq_le a b = (\<not> sint (b - a) < 0)" "seq_ge a b = (\<not> sint (a - b) < 0)"
  by (simp_all add: seq_lt_def seq_gt_def seq_le_def seq_ge_def seq_diff_def)

text \<open>The acknowledgement that completes a passive open.\<close>

lemma handshake_sequence:
  "ihos_sequence example_env handshake_ack (replicate 20 0) (syn_acked_tcb, new_tcp)
     = Some (Continue (\<lparr>l_p = [], l_seg_seq = 1001, l_seg_len = 0, l_do_output = False,
                        l_do_output_data = False\<rparr>, syn_acked_tcb, new_tcp))"
  by (simp add: ihos_sequence_def trim_front_def hdr_simps p_len_def
      segment_acceptable_def example_tcb_simps seq_simps)

lemma handshake_rst_syn:
  "ihos_rst_syn example_env handshake_ack (syn_acked_tcb, new_tcp)
     = Continue (syn_acked_tcb, new_tcp)"
  by (simp add: ihos_rst_syn_def hdr_simps)

lemma handshake_acked:
  "snd_data (do_established example_env syn_acked_tcb) = []
   \<and> seq_lt (snd_unacknowledged (do_established example_env syn_acked_tcb)) (ack handshake_ack)
   \<and> seq_le (ack handshake_ack) (snd_next (do_established example_env syn_acked_tcb))
   \<and> data_segment_acked (clock_now example_env) (ack handshake_ack)
        (do_established example_env syn_acked_tcb) = None"
  by (simp add: do_established_fields example_tcb_simps hdr_simps seq_simps
      data_segment_acked_def)

lemma handshake_ack_step:
  "ihos_ack example_env handshake_ack
     (\<lparr>l_p = [], l_seg_seq = 1001, l_seg_len = 0, l_do_output = False,
       l_do_output_data = False\<rparr>, syn_acked_tcb, new_tcp) = None"
proof -
  have 1: "in_state syn_acked_tcb (state_bits SYN_RECEIVED)"
    by (simp add: in_state_def example_tcb_simps)
  have 2: "seq_le (snd_unacknowledged syn_acked_tcb) (ack handshake_ack)
           \<and> seq_le (ack handshake_ack) (snd_next syn_acked_tcb)"
    by (simp add: example_tcb_simps hdr_simps seq_simps)
  have 3: "in_state (do_established example_env syn_acked_tcb)
             (state_bits ESTABLISHED OR state_bits CLOSE_WAIT)"
    by (simp add: in_state_def do_established_fields)
  have 4: "new_data_acked example_env handshake_ack
     (\<lparr>l_p = [], l_seg_seq = 1001, l_seg_len = 0, l_do_output = False,
       l_do_output_data = False\<rparr>, do_established example_env syn_acked_tcb, new_tcp) = None"
    using handshake_acked by (simp add: new_data_acked_def)
  show ?thesis
    using 1 2 3 4 handshake_acked by (simp add: ihos_ack_def hdr_simps)
qed

text \<open>
  C3 at the acknowledgement that completes a passive open.  \<^verbatim>\<open>SND.UNA < SEG.ACK <= SND.NXT\<close>
  holds and \<^verbatim>\<open>SND.data\<close> is empty (only the SYN was sent): the loop pops nothing,
  \<^verbatim>\<open>SND.UNA\<close> is still below \<^verbatim>\<open>SEG.ACK\<close>, and \<^verbatim>\<open>data_segment_acked\<close> goes on to write to
  \<^verbatim>\<open>_snd.data.front()\<close> of the empty queue.
\<close>

theorem handshake_ack_undefined:
  "snd_data (do_established example_env syn_acked_tcb) = []
   \<and> seq_lt (snd_unacknowledged (do_established example_env syn_acked_tcb)) (ack handshake_ack)
   \<and> seq_le (ack handshake_ack) (snd_next (do_established example_env syn_acked_tcb))
   \<and> data_segment_acked (clock_now example_env) (ack handshake_ack)
        (do_established example_env syn_acked_tcb) = None
   \<and> input_handle_other_state example_env handshake_ack (replicate 20 0) (syn_acked_tcb, new_tcp)
       = None"
  using handshake_acked
  by (simp add: input_handle_other_state_def handshake_sequence handshake_rst_syn
      handshake_ack_step)

text \<open>A segment with three bytes of data, in order, in \<^verbatim>\<open>FIN_WAIT_2\<close> and in \<^verbatim>\<open>FIN_WAIT_1\<close>.\<close>

lemma data_sequence:
  "rcv_next t = 1001 \<Longrightarrow> rcv_window t = 29200 \<Longrightarrow>
   ihos_sequence example_env data_hdr data_packet (t, s)
     = Some (Continue (\<lparr>l_p = [104, 105, 33], l_seg_seq = 1001, l_seg_len = 3,
                        l_do_output = False, l_do_output_data = False\<rparr>, t, s))"
  by (simp add: ihos_sequence_def trim_front_def hdr_simps p_len_def data_packet_def
      segment_acceptable_def seq_simps)

lemma data_rst_syn: "ihos_rst_syn example_env data_hdr ts = Continue ts"
  by (cases ts) (simp add: ihos_rst_syn_def hdr_simps)

lemma fin_wait_2_ack:
  "ihos_ack example_env data_hdr (l, fin_wait_2_tcb, s) = Some (Continue (l, fin_wait_2_tcb, s))"
  by (simp add: ihos_ack_def hdr_simps in_state_def example_tcb_simps)

lemma fin_wait_2_text:
  "ihos_text example_env (l, fin_wait_2_tcb, s) = Some (Continue (l, fin_wait_2_tcb, s))"
  by (simp add: ihos_text_def in_state_def example_tcb_simps)

lemma data_fin: "ihos_fin example_env data_hdr lts = Continue lts"
  by (cases lts) (simp add: ihos_fin_def hdr_simps)

lemma fin_wait_2_drops_data:
  "input_handle_other_state example_env data_hdr data_packet (fin_wait_2_tcb, new_tcp)
     = Some (fin_wait_2_tcb, new_tcp)"
  by (simp add: input_handle_other_state_def data_sequence example_tcb_simps data_rst_syn
      fin_wait_2_ack fin_wait_2_text data_fin ihos_output_def)

lemma fin_wait_1_ack:
  "ihos_ack example_env data_hdr (l, fin_wait_2_tcb\<lparr>state := FIN_WAIT_1\<rparr>, s)
     = Some (Continue (l, fin_wait_2_tcb\<lparr>state := FIN_WAIT_1\<rparr>, s))"
  by (simp add: ihos_ack_def hdr_simps in_state_def example_tcb_simps)

lemma fin_wait_1_text:
  "ihos_text example_env
     (\<lparr>l_p = [104, 105, 33], l_seg_seq = 1001, l_seg_len = 3,
       l_do_output = False, l_do_output_data = False\<rparr>,
      fin_wait_2_tcb\<lparr>state := FIN_WAIT_1\<rparr>, s)
   = Some (Continue
       (\<lparr>l_p = [104, 105, 33], l_seg_seq = 1001, l_seg_len = 3,
         l_do_output = False, l_do_output_data = False\<rparr>,
        fin_wait_2_tcb\<lparr>state := FIN_WAIT_1, rcv_data := [[104, 105, 33]], rcv_next := 1004,
          delayed_ack_timer := Some 200\<rparr>, s))"
  by (simp add: ihos_text_def in_state_def example_tcb_simps p_len_def merge_out_of_order_def
      signal_data_received_def should_send_ack_def example_env_simps)

lemma fin_wait_1_takes_data:
  "input_handle_other_state example_env data_hdr data_packet
     (fin_wait_2_tcb\<lparr>state := FIN_WAIT_1\<rparr>, new_tcp)
   = Some (fin_wait_2_tcb\<lparr>state := FIN_WAIT_1, rcv_data := [[104, 105, 33]], rcv_next := 1004,
             delayed_ack_timer := Some 200\<rparr>, new_tcp)"
  by (simp add: input_handle_other_state_def data_sequence example_tcb_simps data_rst_syn
      fin_wait_1_ack fin_wait_1_text data_fin ihos_output_def)

text \<open>
  C1 at a segment with data in \<^verbatim>\<open>FIN_WAIT_2\<close>.  The segment passes the sequence check and is
  in order; the handler returns with the TCB as it was: nothing is appended to \<^verbatim>\<open>RCV.data\<close>
  and \<^verbatim>\<open>RCV.NXT\<close> does not move.  The same segment in \<^verbatim>\<open>FIN_WAIT_1\<close> is appended and moves
  \<^verbatim>\<open>RCV.NXT\<close> by its three bytes.  The mask of the test names \<^verbatim>\<open>FIN_WAIT_1\<close> twice and
  \<^verbatim>\<open>FIN_WAIT_2\<close> not at all.
\<close>

theorem fin_wait_2_segment_text_dropped:
  "state fin_wait_2_tcb = FIN_WAIT_2
   \<and> segment_acceptable fin_wait_2_tcb (seq data_hdr) 3
   \<and> input_handle_other_state example_env data_hdr data_packet (fin_wait_2_tcb, new_tcp)
       = Some (fin_wait_2_tcb, new_tcp)
   \<and> rcv_data fin_wait_2_tcb = [] \<and> rcv_next fin_wait_2_tcb = 1001
   \<and> input_handle_other_state example_env data_hdr data_packet
        (fin_wait_2_tcb\<lparr>state := FIN_WAIT_1\<rparr>, new_tcp)
       = Some (fin_wait_2_tcb\<lparr>state := FIN_WAIT_1, rcv_data := [[104, 105, 33]],
                 rcv_next := 1004, delayed_ack_timer := Some 200\<rparr>, new_tcp)
   \<and> state_bits ESTABLISHED OR state_bits FIN_WAIT_1 OR state_bits FIN_WAIT_1 = 48
   \<and> state_bits FIN_WAIT_2 AND 48 = 0"
  by (simp add: fin_wait_2_drops_data fin_wait_1_takes_data example_tcb_simps
      segment_acceptable_def hdr_simps seq_simps)

section \<open>Duplicate acknowledgements\<close>

text \<open>Which operations leave \<^verbatim>\<open>_snd.dupacks\<close> and the state alone.\<close>

lemma update_cwnd_frame:
  assumes "update_cwnd n t = Some t'"
  shows "snd_dupacks t' = snd_dupacks t" "state t' = state t" "snd_ssthresh t' = snd_ssthresh t"
    "snd_mss t' = snd_mss t" "snd_data t' = snd_data t"
    "snd_unacknowledged t' = snd_unacknowledged t"
    "snd_user_queue_space t' = snd_user_queue_space t"
  using assms by (auto simp: update_cwnd_def Let_def split: if_splits)

lemma full_ack_loop_dupacks:
  "full_ack_loop now a xs n t = Some (m, t') \<Longrightarrow>
     snd_dupacks t' = snd_dupacks t \<and> state t' = state t"
proof (induction xs arbitrary: n t)
  case Nil
  then show ?case by simp
next
  case (Cons x xs)
  show ?case
  proof (cases "seq_le (snd_unacknowledged t + ucast (data_remaining x)) a")
    case False
    with Cons.prems show ?thesis by simp
  next
    case True
    let ?t2 = "if nr_transmits x = 0
               then update_rto now (tx_time x)
                      (t\<lparr>snd_unacknowledged := snd_unacknowledged t + ucast (data_remaining x)\<rparr>)
               else t\<lparr>snd_unacknowledged := snd_unacknowledged t + ucast (data_remaining x)\<rparr>"
    have r2: "snd_dupacks ?t2 = snd_dupacks t \<and> state ?t2 = state t"
      by (simp add: update_rto_frame)
    from Cons.prems True obtain t3 where
      c: "update_cwnd (ucast (data_remaining x)) ?t2 = Some t3" and
      l: "full_ack_loop now a xs (n + ucast (data_remaining x))
            (t3\<lparr>snd_user_queue_space := signal (unat (data_len x)) (snd_user_queue_space t3),
                snd_data := xs\<rparr>) = Some (m, t')"
      by (auto simp: Let_def split: option.splits)
    from Cons.IH[OF l] update_cwnd_frame[OF c] r2 show ?thesis by simp
  qed
qed

lemma update_cwnd_dupacks:
  "update_cwnd n t = Some t' \<Longrightarrow> snd_dupacks t' = snd_dupacks t \<and> state t' = state t"
  by (simp add: update_cwnd_frame)

lemma data_segment_acked_dupacks:
  assumes "data_segment_acked now a t = Some (m, t')"
  shows "snd_dupacks t' = snd_dupacks t \<and> state t' = state t"
proof -
  from assms obtain n t1 where 1: "full_ack_loop now a (snd_data t) 0 t = Some (n, t1)"
    by (auto simp: data_segment_acked_def split: option.splits)
  note f = full_ack_loop_dupacks[OF 1]
  from assms 1 have "snd_dupacks t' = snd_dupacks t1 \<and> state t' = state t1"
    by (auto simp: data_segment_acked_def Let_def split: if_splits list.splits option.splits
        dest!: update_cwnd_dupacks)
  with f show ?thesis by simp
qed

lemma fast_retransmit_eq:
  "fast_retransmit e (t, s) =
     (case snd_data t of
        [] \<Rightarrow> (t, s)
      | sg # rest \<Rightarrow>
          (t\<lparr>snd_data := sg\<lparr>nr_transmits := nr_transmits sg + 1\<rparr> # rest,
             packetq := packetq t @ [\<lparr>l4_to = foreign_ip t, l4_p = pkt sg, l4_e_dst = None,
                                      l4_proto_num = None\<rparr>],
             poll_active := True\<rparr>,
           if poll_active t then s else poll_tcb e (foreign_ip t) (this t) s))"
  by (simp add: fast_retransmit_def Let_def queue_packet_def tcb_output_eq split: list.splits)

lemma fast_retransmit_frame:
  assumes "fast_retransmit e (t, s) = (t', s')"
  shows "snd_dupacks t' = snd_dupacks t \<and> state t' = state t"
  using assms by (auto simp: fast_retransmit_eq split: list.splits)

lemma update_window_frame:
  "update_window e th a b t = Some t' \<Longrightarrow> snd_dupacks t' = snd_dupacks t \<and> state t' = state t"
  by (auto simp: update_window_def Let_def start_persist_timer_def stop_persist_timer_def
      split: option.splits if_splits)

lemma set_retransmit_timer_frame:
  "snd_dupacks (set_retransmit_timer e t) = snd_dupacks t"
  "state (set_retransmit_timer e t) = state t"
  by (simp_all add: set_retransmit_timer_def signal_all_data_acked_def stop_retransmit_timer_def
      start_retransmit_timer_def)

lemma new_data_acked_dupacks:
  assumes "new_data_acked e th (l, t, s) = Some (Continue (l', t', s'))"
  shows "(snd_dupacks t' = snd_dupacks t \<or> snd_dupacks t' = 0) \<and> state t' = state t"
  using assms
  by (auto simp: new_data_acked_def Let_def start_retransmit_timer_def
      set_retransmit_timer_frame exit_fast_recovery_def
      split: option.splits prod.splits if_splits
      dest!: data_segment_acked_dupacks fast_retransmit_frame update_window_frame)















lemma duplicate_ack_state:
  "duplicate_ack e th (l, t, s) = (l', t', s') \<Longrightarrow>
     state t' = state t \<and> snd_dupacks t' = snd_dupacks t + 1 \<and> l_p l' = l_p l
     \<and> l_seg_len l' = l_seg_len l \<and> l_seg_seq l' = l_seg_seq l \<and> l_do_output l' = l_do_output l"
  by (auto simp: duplicate_ack_def Let_def fast_retransmit_eq
      split: if_splits prod.splits list.splits)




text \<open>The way of a pure acknowledgement through the handler in \<^verbatim>\<open>ESTABLISHED\<close> and \<^verbatim>\<open>CLOSE_WAIT\<close>.\<close>

lemma in_state_est_cw:
  assumes "state t = ESTABLISHED \<or> state t = CLOSE_WAIT"
  shows "\<not> in_state t (state_bits SYN_RECEIVED)"
    "in_state t (state_bits ESTABLISHED OR state_bits CLOSE_WAIT)"
    "\<not> in_state t (state_bits FIN_WAIT_1)" "\<not> in_state t (state_bits CLOSING)"
    "\<not> in_state t (state_bits LAST_ACK)"
    "\<not> in_state t (state_bits CLOSED OR state_bits LISTEN OR state_bits SYN_SENT)"
    "\<not> in_state t (state_bits FIN_WAIT_2)"
  using assms by (auto simp: in_state_def)





text \<open>Step 4.5 in \<^verbatim>\<open>ESTABLISHED\<close> and \<^verbatim>\<open>CLOSE_WAIT\<close>: only the branch of these states runs.\<close>

lemma ihos_ack_est_cw:
  assumes st: "state t = ESTABLISHED \<or> state t = CLOSE_WAIT"
    and fl: "f_ack th"
  shows "ihos_ack e th (l, t, s) =
     (if seq_lt (snd_unacknowledged t) (ack th) \<and> seq_le (ack th) (snd_next t) then
        new_data_acked e th (l, t, s)
      else
        case is_duplicate_ack th l t of
          None \<Rightarrow> None
        | Some d \<Rightarrow>
            if d then Some (Continue (duplicate_ack e th (l, t, s)))
            else if seq_gt (ack th) (snd_next t) then Some (Return (tcb_output e (t, s)))
            else if snd_window t = 0 \<and> 0 < window th then
              (case update_window e th (l_seg_seq l) (ack th) t of
                 None \<Rightarrow> None
               | Some t \<Rightarrow> Some (Continue (l\<lparr>l_do_output_data := True\<rparr>, t, s)))
            else Some (Continue (l, t, s)))"
proof (cases "seq_lt (snd_unacknowledged t) (ack th) \<and> seq_le (ack th) (snd_next t)")
  case True
  show ?thesis
  proof (cases "new_data_acked e th (l, t, s)")
    case None
    with True fl show ?thesis
      by (simp add: ihos_ack_def Let_def in_state_est_cw[OF st] del: state_bits.simps)
  next
    case (Some f)
    with new_data_acked_no_return[of e th "(l, t, s)"]
    obtain l' t' s' where c: "new_data_acked e th (l, t, s) = Some (Continue (l', t', s'))"
      by (cases f) auto
    from new_data_acked_dupacks[OF c] st
    have st': "state t' = ESTABLISHED \<or> state t' = CLOSE_WAIT" by simp
    from True fl show ?thesis
      by (simp add: ihos_ack_def Let_def in_state_est_cw[OF st] in_state_est_cw[OF st'] c
          del: state_bits.simps)
  qed
next
  case False
  then have nn: "(seq_lt (snd_unacknowledged t) (ack th) \<and> seq_le (ack th) (snd_next t)) = False"
    by simp
  show ?thesis
  proof (cases "is_duplicate_ack th l t")
    case None
    with fl show ?thesis
      by (simp add: ihos_ack_def Let_def in_state_est_cw[OF st] nn del: state_bits.simps)
  next
    case (Some d)
    show ?thesis
    proof (cases d)
      case True
      obtain l' t' s' where dd: "duplicate_ack e th (l, t, s) = (l', t', s')"
        by (cases "duplicate_ack e th (l, t, s)")
      from duplicate_ack_state[OF dd] st
      have st': "state t' = ESTABLISHED \<or> state t' = CLOSE_WAIT" by simp
      from fl Some True show ?thesis
        by (simp add: ihos_ack_def Let_def in_state_est_cw[OF st] in_state_est_cw[OF st'] dd nn
            del: state_bits.simps)
    next
      case False
      note nd = False
      show ?thesis
      proof (cases "seq_gt (ack th) (snd_next t)")
        case True
        with fl Some nd show ?thesis
          by (simp add: ihos_ack_def Let_def in_state_est_cw[OF st] nn del: state_bits.simps)
      next
        case False
        note ng = False
        show ?thesis
        proof (cases "snd_window t = 0 \<and> 0 < window th")
          case True
          show ?thesis
          proof (cases "update_window e th (l_seg_seq l) (ack th) t")
            case None
            with fl Some nd ng True show ?thesis
              by (simp add: ihos_ack_def Let_def in_state_est_cw[OF st] nn del: state_bits.simps)
          next
            case (Some t')
            note u = Some
            from update_window_frame[OF u] st
            have st': "state t' = ESTABLISHED \<or> state t' = CLOSE_WAIT" by simp
            from fl \<open>is_duplicate_ack th l t = Some d\<close> nd ng True show ?thesis
              by (simp add: ihos_ack_def Let_def in_state_est_cw[OF st] in_state_est_cw[OF st'] u nn
                  del: state_bits.simps)
          qed
        next
          case False
          then have nw: "(snd_window t = 0 \<and> 0 < window th) = False" by simp
          from fl Some nd ng show ?thesis
            by (simp add: ihos_ack_def Let_def in_state_est_cw[OF st] nn nw
                del: state_bits.simps)
        qed
      qed
    qed
  qed
qed







lemma pure_ack_sequence:
  assumes "rcv_next t = 1001" "rcv_window t = 29200" "seq th = 1001" "data_offset th = 5"
  shows "ihos_sequence example_env th (replicate 20 0) (t, s)
     = Some (Continue (\<lparr>l_p = [], l_seg_seq = 1001, l_seg_len = 0, l_do_output = False,
                        l_do_output_data = False\<rparr>, t, s))"
  using assms
  by (simp add: ihos_sequence_def trim_front_def p_len_def segment_acceptable_def seq_simps)



lemma window_changed_not_duplicate:
  "is_duplicate_ack (dup_ack_hdr\<lparr>window := 100\<rparr>)
     \<lparr>l_p = [], l_seg_seq = 1001, l_seg_len = 0, l_do_output = False, l_do_output_data = False\<rparr>
     (est_tcb\<lparr>snd_dupacks := 2\<rparr>) = Some False"
  by (simp add: is_duplicate_ack_def scaled_window_def example_tcb_simps hdr_simps)



lemma window_changed_handled:
  "input_handle_other_state example_env (dup_ack_hdr\<lparr>window := 100\<rparr>) (replicate 20 0)
     (est_tcb\<lparr>snd_dupacks := 2\<rparr>, new_tcp)
   = Some (est_tcb\<lparr>snd_dupacks := 2\<rparr>, new_tcp)"
proof -
  let ?l = "\<lparr>l_p = [], l_seg_seq = 1001, l_seg_len = 0, l_do_output = False,
             l_do_output_data = False\<rparr>"
  let ?th = "dup_ack_hdr\<lparr>window := 100\<rparr>"
  let ?t = "est_tcb\<lparr>snd_dupacks := 2\<rparr>"
  have st: "state ?t = ESTABLISHED \<or> state ?t = CLOSE_WAIT" by (simp add: example_tcb_simps)
  have fl: "f_ack ?th" by (simp add: hdr_simps)
  have 1: "ihos_sequence example_env ?th (replicate 20 0) (?t, new_tcp)
             = Some (Continue (?l, ?t, new_tcp))"
    by (rule pure_ack_sequence) (simp_all add: example_tcb_simps hdr_simps)
  have 2: "ihos_rst_syn example_env ?th (?t, new_tcp) = Continue (?t, new_tcp)"
    by (simp add: ihos_rst_syn_def hdr_simps)
  have 3: "ihos_ack example_env ?th (?l, ?t, new_tcp) = Some (Continue (?l, ?t, new_tcp))"
    unfolding ihos_ack_est_cw[OF st fl]
    by (simp add: window_changed_not_duplicate hdr_simps example_tcb_simps seq_simps)
  have 4: "ihos_text example_env (?l, ?t, new_tcp) = Some (Continue (?l, ?t, new_tcp))"
    by (simp add: ihos_text_def in_state_def example_tcb_simps p_len_def)
  have 5: "ihos_fin example_env ?th (?l, ?t, new_tcp) = Continue (?l, ?t, new_tcp)"
    by (simp add: ihos_fin_def hdr_simps)
  show ?thesis
    by (simp add: input_handle_other_state_def 1 2 3 4 5 ihos_output_def)
qed





section \<open>The packet provider\<close>

lemma poll_tcb_frame:
  "tcb_polled (poll_tcb e to r s) = tcb_polled s"
  "stray_packetq (poll_tcb e to r s) = stray_packetq s"
  "queue_space (poll_tcb e to r s) = queue_space s"
  "poll_tcbs (poll_tcb e to r s) = poll_tcbs s \<or> (\<exists>x. poll_tcbs (poll_tcb e to r s) = poll_tcbs s @ [x])"
  by (simp_all add: poll_tcb_def split: option.splits)

lemma tcb_output_shard:
  "tcb_polled (snd (tcb_output e (t, s))) = tcb_polled s"
  "stray_packetq (snd (tcb_output e (t, s))) = stray_packetq s"
  "queue_space (snd (tcb_output e (t, s))) = queue_space s"
  "poll_tcbs (snd (tcb_output e (t, s))) = poll_tcbs s
   \<or> (\<exists>x. poll_tcbs (snd (tcb_output e (t, s))) = poll_tcbs s @ [x])"
  using poll_tcb_frame(4)[of e "foreign_ip t" "this t" s]
  by (simp_all add: tcb_output_eq poll_tcb_frame)

text \<open>
  \<^verbatim>\<open>get_packet\<close> always returns: the assertion on \<^verbatim>\<open>_packetq\<close> holds, since \<^verbatim>\<open>output_one\<close> queues
  a segment for a TCB that is not closed.  It leaves the shard alone but for a possible entry
  at the back of the ring, and yields nothing only for a closed TCB.
\<close>

lemma get_packet_total:
  "\<exists>l4p t' s'. get_packet e (t, s) = Some (l4p, t', s')
     \<and> tcb_polled s' = tcb_polled s \<and> stray_packetq s' = stray_packetq s
     \<and> queue_space s' = queue_space s
     \<and> (poll_tcbs s' = poll_tcbs s \<or> (\<exists>x. poll_tcbs s' = poll_tcbs s @ [x]))
     \<and> (l4p = None \<longrightarrow> state t' = CLOSED \<and> s' = s)"
proof -
  define t1 where "t1 = t\<lparr>poll_active := False\<rparr>"
  define t2 where "t2 = (if packetq t1 = [] then output_one e t1 else t1)"
  have g: "get_packet e (t, s) =
     (if in_state t2 (state_bits CLOSED) then Some (None, t2, s)
      else case packetq t2 of
            [] \<Rightarrow> None
          | q # rest \<Rightarrow>
              if rest \<noteq> [] then Some (Some q, tcb_output e (t2\<lparr>packetq := rest\<rparr>, s))
              else if snd_dupacks t2 < 3 then
                (case can_send (t2\<lparr>packetq := rest\<rparr>) of
                   (n, t) \<Rightarrow> if 0 < n then Some (Some q, tcb_output e (t, s))
                             else Some (Some q, t, s))
              else Some (Some q, t2\<lparr>packetq := rest\<rparr>, s))"
    unfolding get_packet_def Let_def t1_def t2_def prod.case
    by (auto split: list.splits)
  have st: "in_state t2 (state_bits CLOSED) = in_state t1 (state_bits CLOSED)"
    by (simp add: t2_def in_state_def output_one_frame)
  show ?thesis
  proof (cases "in_state t2 (state_bits CLOSED)")
    case True
    then have "state t2 = CLOSED" by (cases "state t2") (simp_all add: in_state_def)
    with True show ?thesis by (simp add: g)
  next
    case False
    note open_tcb = False
    have ne: "packetq t2 \<noteq> []"
    proof (cases "packetq t1 = []")
      case True
      from open_tcb st have "\<not> in_state t1 (state_bits CLOSED)" by simp
      from output_one_queues[OF this, of e] True show ?thesis by (simp add: t2_def)
    next
      case False
      then show ?thesis by (simp add: t2_def)
    qed
    then obtain q rest where q: "packetq t2 = q # rest" by (cases "packetq t2") auto
    obtain n t3 where c: "can_send (t2\<lparr>packetq := rest\<rparr>) = (n, t3)"
      by (cases "can_send (t2\<lparr>packetq := rest\<rparr>)")
    obtain t4 s4 where o1: "tcb_output e (t2\<lparr>packetq := rest\<rparr>, s) = (t4, s4)"
      by (cases "tcb_output e (t2\<lparr>packetq := rest\<rparr>, s)")
    obtain t5 s5 where o2: "tcb_output e (t3, s) = (t5, s5)"
      by (cases "tcb_output e (t3, s)")
    have f1: "tcb_polled s4 = tcb_polled s" "stray_packetq s4 = stray_packetq s"
      "queue_space s4 = queue_space s"
      "poll_tcbs s4 = poll_tcbs s \<or> (\<exists>x. poll_tcbs s4 = poll_tcbs s @ [x])"
      using tcb_output_shard[of e "t2\<lparr>packetq := rest\<rparr>" s] by (simp_all add: o1)
    have f2: "tcb_polled s5 = tcb_polled s" "stray_packetq s5 = stray_packetq s"
      "queue_space s5 = queue_space s"
      "poll_tcbs s5 = poll_tcbs s \<or> (\<exists>x. poll_tcbs s5 = poll_tcbs s @ [x])"
      using tcb_output_shard[of e t3 s] by (simp_all add: o2)
    have "get_packet e (t, s) = Some (Some q, t4, s4)
          \<or> get_packet e (t, s) = Some (Some q, t5, s5)
          \<or> get_packet e (t, s) = Some (Some q, t3, s)
          \<or> get_packet e (t, s) = Some (Some q, t2\<lparr>packetq := rest\<rparr>, s)"
      using open_tcb c o1 o2 by (auto simp: g q)
    then show ?thesis
      using f1 f2 by auto
  qed
qed

lemma poll_loop_total:
  "c \<le> length (poll_tcbs s) \<Longrightarrow> \<exists>r. poll_loop e c (s, h) = Some r"
proof (induction c arbitrary: s h)
  case 0
  then show ?case by simp
next
  case (Suc c)
  then obtain ref dst ring where r: "poll_tcbs s = (ref, dst) # ring" "c \<le> length ring"
    by (cases "poll_tcbs s") auto
  let ?s = "s\<lparr>tcb_polled := tcb_polled s + 1, poll_tcbs := ring\<rparr>"
  from get_packet_total[of e "h ref" ?s]
  obtain l4p t' s' where g: "get_packet e (h ref, ?s) = Some (l4p, t', s')"
    "poll_tcbs s' = ring \<or> (\<exists>x. poll_tcbs s' = ring @ [x])"
    by auto
  from g(2) r(2) have "c \<le> length (poll_tcbs s')" by auto
  from Suc.IH[OF this, of "h(ref := t')"]
  obtain r' where ih: "poll_loop e c (s', h(ref := t')) = Some r'" by blast
  have step: "poll_loop e (Suc c) (s, h) =
          (case l4p of
             Some p \<Rightarrow> Some (Some (p\<lparr>l4_e_dst := Some dst\<rparr>), s', h(ref := t'))
           | None \<Rightarrow> poll_loop e c (s', h(ref := t')))"
    using r(1) g(1) by (simp add: Let_def)
  show ?case
  proof (cases l4p)
    case None
    with step ih have "poll_loop e (Suc c) (s, h) = Some r'" by (simp del: poll_loop.simps)
    then show ?thesis by (rule exI)
  next
    case (Some p)
    with step have "poll_loop e (Suc c) (s, h)
        = Some (Some (p\<lparr>l4_e_dst := Some dst\<rparr>), s', h(ref := t'))"
      by (simp del: poll_loop.simps)
    then show ?thesis by (rule exI)
  qed
qed

lemma poll_loop_step:
  assumes "poll_tcbs s = (ref, dst) # ring"
    and "get_packet e (h ref, s\<lparr>tcb_polled := tcb_polled s + 1, poll_tcbs := ring\<rparr>)
           = Some (l4p, t', s')"
  shows "poll_loop e (Suc c) (s, h) =
           (case l4p of
              Some p \<Rightarrow> Some (Some (p\<lparr>l4_e_dst := Some dst\<rparr>), s', h(ref := t'))
            | None \<Rightarrow> poll_loop e c (s', h(ref := t')))"
  using assms by (simp add: Let_def)

lemma packet_provider_total: "\<exists>r. packet_provider e (s, h) = Some r"
proof (cases "stray_packetq s \<noteq> [] \<and> (tcb_polled s mod 128 = 0 \<or> poll_tcbs s = [])")
  case True
  then show ?thesis by (cases "stray_packetq s") (simp_all add: packet_provider_def)
next
  case False
  then have "packet_provider e (s, h) = poll_loop e (length (poll_tcbs s)) (s, h)"
    by (cases "stray_packetq s") (simp_all add: packet_provider_def del: poll_loop.simps)
  with poll_loop_total[of "length (poll_tcbs s)" s e h] show ?thesis by simp
qed

text \<open>What \<^verbatim>\<open>get_packet\<close> does with a closed TCB, and with one that has a single segment queued.\<close>

lemma get_packet_closed:
  assumes "state t = CLOSED" "packetq t = []"
  shows "get_packet e (t, s) = Some (None, t\<lparr>poll_active := False\<rparr>, s)"
  using assms by (simp add: get_packet_def output_one_def in_state_def)

lemma get_packet_queued:
  assumes "state t = ESTABLISHED" "packetq t = [q]" "snd_dupacks t = 0"
    "\<not> snd_window_probe t" "snd_unsent_len t = 0"
  shows "get_packet e (t, s) = Some (Some q, t\<lparr>poll_active := False, packetq := []\<rparr>, s)"
  using assms by (simp add: get_packet_def in_state_def can_send_def)

lemma provider_input_simps:
  "stray_packetq stray_shard = [stray_packet, stray_packet\<lparr>l4_to := 3\<rparr>]"
  "poll_tcbs stray_shard = [(0, 5)]" "tcb_polled stray_shard = 0"
  "queue_space stray_shard = \<lparr>sem_count = 212992, sem_broken = None\<rparr>"
  "stray_packetq ring_shard = []" "poll_tcbs ring_shard = [(1, 4), (0, 5)]"
  "tcb_polled ring_shard = 127"
  "state queued_tcb = ESTABLISHED" "packetq queued_tcb = [queued_packet]"
  "snd_dupacks queued_tcb = 0" "\<not> snd_window_probe queued_tcb"
  "snd_unsent_len queued_tcb = 0"
  "l4_p stray_packet = reset_segment example_env stray_syn 1 2"
  by (simp_all add: stray_shard_def ring_shard_def example_heap_def queued_tcb_def
      stray_packet_def new_tcp_simps example_tcb_simps est_tcb_def new_tcb_simps)

lemma example_heap_simps:
  "example_heap 0 = queued_tcb" "example_heap 1 = new_tcb\<lparr>this := 1\<rparr>"
  by (simp_all add: example_heap_def)

text \<open>
  C8, as the code has it.  The provider drains one stray packet, and returns its length to
  \<^verbatim>\<open>_queue_space\<close>, when the stray queue is not empty and either the number of TCBs polled so
  far is a multiple of 128 or the ring is empty; the ring and the counter are left as they
  were.  In every other case it runs the loop, for as many rounds as the ring was long.  A round
  counts one TCB polled, pops the front of the ring and calls \<^verbatim>\<open>get_packet\<close>, which always
  returns: a segment ends the loop and is returned with the L2 destination of the popped entry;
  a TCB that yields none (it is closed) is skipped and the loop goes on with the next one.
  After the last round nothing is returned.  The provider always returns.
\<close>

theorem packet_provider_behaviour:
  "(stray_packetq s = q # rest \<and> (tcb_polled s mod 128 = 0 \<or> poll_tcbs s = []) \<longrightarrow>
      packet_provider e (s, h) =
        Some (Some q,
              s\<lparr>stray_packetq := rest,
                queue_space := signal (segment_len (l4_p q)) (queue_space s)\<rparr>, h))
   \<and> (stray_packetq s = [] \<or> (tcb_polled s mod 128 \<noteq> 0 \<and> poll_tcbs s \<noteq> []) \<longrightarrow>
      packet_provider e (s, h) = poll_loop e (length (poll_tcbs s)) (s, h))
   \<and> poll_loop e 0 (s, h) = Some (None, s, h)
   \<and> (poll_tcbs s = (ref, dst) # ring \<longrightarrow>
       (\<exists>l4p t' s'.
          get_packet e (h ref, s\<lparr>tcb_polled := tcb_polled s + 1, poll_tcbs := ring\<rparr>)
            = Some (l4p, t', s')
          \<and> tcb_polled s' = tcb_polled s + 1
          \<and> stray_packetq s' = stray_packetq s \<and> queue_space s' = queue_space s
          \<and> (poll_tcbs s' = ring \<or> (\<exists>x. poll_tcbs s' = ring @ [x]))
          \<and> (l4p = None \<longrightarrow> state t' = CLOSED)
          \<and> poll_loop e (Suc c) (s, h) =
              (case l4p of
                 Some p \<Rightarrow> Some (Some (p\<lparr>l4_e_dst := Some dst\<rparr>), s', h(ref := t'))
               | None \<Rightarrow> poll_loop e c (s', h(ref := t')))))
   \<and> (\<exists>r. packet_provider e (s, h) = Some r)"
proof -
  have p1: "stray_packetq s = q # rest \<and> (tcb_polled s mod 128 = 0 \<or> poll_tcbs s = []) \<longrightarrow>
      packet_provider e (s, h) =
        Some (Some q,
              s\<lparr>stray_packetq := rest,
                queue_space := signal (segment_len (l4_p q)) (queue_space s)\<rparr>, h)"
    by (auto simp: packet_provider_def)
  have p2: "stray_packetq s = [] \<or> (tcb_polled s mod 128 \<noteq> 0 \<and> poll_tcbs s \<noteq> []) \<longrightarrow>
      packet_provider e (s, h) = poll_loop e (length (poll_tcbs s)) (s, h)"
    by (cases "stray_packetq s") (simp_all add: packet_provider_def del: poll_loop.simps)
  have p3: "poll_loop e 0 (s, h) = Some (None, s, h)" by simp
  have p4: "poll_tcbs s = (ref, dst) # ring \<longrightarrow>
       (\<exists>l4p t' s'.
          get_packet e (h ref, s\<lparr>tcb_polled := tcb_polled s + 1, poll_tcbs := ring\<rparr>)
            = Some (l4p, t', s')
          \<and> tcb_polled s' = tcb_polled s + 1
          \<and> stray_packetq s' = stray_packetq s \<and> queue_space s' = queue_space s
          \<and> (poll_tcbs s' = ring \<or> (\<exists>x. poll_tcbs s' = ring @ [x]))
          \<and> (l4p = None \<longrightarrow> state t' = CLOSED)
          \<and> poll_loop e (Suc c) (s, h) =
              (case l4p of
                 Some p \<Rightarrow> Some (Some (p\<lparr>l4_e_dst := Some dst\<rparr>), s', h(ref := t'))
               | None \<Rightarrow> poll_loop e c (s', h(ref := t'))))"
  proof
    assume r: "poll_tcbs s = (ref, dst) # ring"
    let ?s = "s\<lparr>tcb_polled := tcb_polled s + 1, poll_tcbs := ring\<rparr>"
    from get_packet_total[of e "h ref" ?s]
    obtain l4p t' s' where g: "get_packet e (h ref, ?s) = Some (l4p, t', s')"
      and f: "tcb_polled s' = tcb_polled s + 1"
        "stray_packetq s' = stray_packetq s" "queue_space s' = queue_space s"
        "poll_tcbs s' = ring \<or> (\<exists>x. poll_tcbs s' = ring @ [x])"
        "l4p = None \<longrightarrow> state t' = CLOSED"
      by auto
    note st = poll_loop_step[where h = h and ref = ref and c = c, OF r g]
    show "\<exists>l4p t' s'.
          get_packet e (h ref, ?s) = Some (l4p, t', s')
          \<and> tcb_polled s' = tcb_polled s + 1
          \<and> stray_packetq s' = stray_packetq s \<and> queue_space s' = queue_space s
          \<and> (poll_tcbs s' = ring \<or> (\<exists>x. poll_tcbs s' = ring @ [x]))
          \<and> (l4p = None \<longrightarrow> state t' = CLOSED)
          \<and> poll_loop e (Suc c) (s, h) =
              (case l4p of
                 Some p \<Rightarrow> Some (Some (p\<lparr>l4_e_dst := Some dst\<rparr>), s', h(ref := t'))
               | None \<Rightarrow> poll_loop e c (s', h(ref := t')))"
      by (intro exI[of _ l4p] exI[of _ t'] exI[of _ s'] conjI g f st)
  qed
  have p5: "\<exists>r. packet_provider e (s, h) = Some r" by (rule packet_provider_total)
  show ?thesis by (intro conjI p1 p2 p3 p4 p5)
qed

theorem packet_provider_behaviour_witness:
  "stray_packetq stray_shard = [stray_packet, stray_packet\<lparr>l4_to := 3\<rparr>]
   \<and> tcb_polled stray_shard mod 128 = 0
   \<and> packet_provider example_env (stray_shard, example_heap) =
       Some (Some stray_packet,
             stray_shard\<lparr>stray_packetq := [stray_packet\<lparr>l4_to := 3\<rparr>],
               queue_space := signal (segment_len (l4_p stray_packet)) (queue_space stray_shard)\<rparr>,
             example_heap)
   \<and> stray_packetq ring_shard = []
   \<and> poll_tcbs ring_shard = [(1, 4), (0, 5)]
   \<and> packet_provider example_env (ring_shard, example_heap) =
       Some (Some (queued_packet\<lparr>l4_e_dst := Some 5\<rparr>),
             ring_shard\<lparr>tcb_polled := 129, poll_tcbs := []\<rparr>,
             example_heap(1 := new_tcb\<lparr>this := 1, poll_active := False\<rparr>,
                          0 := queued_tcb\<lparr>poll_active := False, packetq := []\<rparr>))"
proof -
  let ?s1 = "ring_shard\<lparr>tcb_polled := tcb_polled ring_shard + 1, poll_tcbs := [(0, 5)]\<rparr>"
  let ?t1 = "new_tcb\<lparr>this := 1, poll_active := False\<rparr>"
  let ?h1 = "example_heap(1 := ?t1)"
  let ?s2 = "?s1\<lparr>tcb_polled := tcb_polled ?s1 + 1, poll_tcbs := []\<rparr>"
  let ?t2 = "queued_tcb\<lparr>poll_active := False, packetq := []\<rparr>"
  note i1 = packet_provider_behaviour[of stray_shard stray_packet "[stray_packet\<lparr>l4_to := 3\<rparr>]"
      example_env example_heap 0 5 "[]" 0]
  note i2 = packet_provider_behaviour[of ring_shard stray_packet "[]" example_env example_heap
      1 4 "[(0, 5)]" 1]
  note i3 = packet_provider_behaviour[of ?s1 stray_packet "[]" example_env ?h1 0 5 "[]" 0]
  have a: "stray_packetq stray_shard = [stray_packet, stray_packet\<lparr>l4_to := 3\<rparr>]"
    "tcb_polled stray_shard mod 128 = 0" "stray_packetq ring_shard = []"
    "poll_tcbs ring_shard = [(1, 4), (0, 5)]" "poll_tcbs ?s1 = [(0, 5)]"
    "length (poll_tcbs ring_shard) = Suc 1"
    by (simp_all add: provider_input_simps)
  have g1: "get_packet example_env (example_heap 1, ?s1) = Some (None, ?t1, ?s1)"
    unfolding example_heap_simps
    by (rule get_packet_closed) (simp_all add: new_tcb_simps)
  have h0: "?h1 0 = queued_tcb" by (simp add: example_heap_simps)
  have g2: "get_packet example_env (?h1 0, ?s2) = Some (Some queued_packet, ?t2, ?s2)"
    unfolding h0
    by (rule get_packet_queued) (simp_all add: provider_input_simps)
  have d: "packet_provider example_env (stray_shard, example_heap) =
       Some (Some stray_packet,
             stray_shard\<lparr>stray_packetq := [stray_packet\<lparr>l4_to := 3\<rparr>],
               queue_space := signal (segment_len (l4_p stray_packet)) (queue_space stray_shard)\<rparr>,
             example_heap)"
    by (rule mp[OF i1[THEN conjunct1]]) (simp add: a)
  have l0: "packet_provider example_env (ring_shard, example_heap)
      = poll_loop example_env (length (poll_tcbs ring_shard)) (ring_shard, example_heap)"
    by (rule mp[OF i2[THEN conjunct2, THEN conjunct1]]) (simp add: a)
  from i2[THEN conjunct2, THEN conjunct2, THEN conjunct2, THEN conjunct1, THEN mp, OF a(4)]
  obtain l4p t' s' where
    r1: "get_packet example_env (example_heap 1, ?s1) = Some (l4p, t', s')"
      "poll_loop example_env (Suc 1) (ring_shard, example_heap) =
         (case l4p of
            Some p \<Rightarrow> Some (Some (p\<lparr>l4_e_dst := Some 4\<rparr>), s', example_heap(1 := t'))
          | None \<Rightarrow> poll_loop example_env 1 (s', example_heap(1 := t')))"
    by blast
  from r1 g1 have l1: "poll_loop example_env (Suc 1) (ring_shard, example_heap)
      = poll_loop example_env (Suc 0) (?s1, ?h1)"
    by (simp del: poll_loop.simps)
  from i3[THEN conjunct2, THEN conjunct2, THEN conjunct2, THEN conjunct1, THEN mp, OF a(5)]
  obtain l4q t'' s'' where
    r2: "get_packet example_env (?h1 0, ?s2) = Some (l4q, t'', s'')"
      "poll_loop example_env (Suc 0) (?s1, ?h1) =
         (case l4q of
            Some p \<Rightarrow> Some (Some (p\<lparr>l4_e_dst := Some 5\<rparr>), s'', ?h1(0 := t''))
          | None \<Rightarrow> poll_loop example_env 0 (s'', ?h1(0 := t'')))"
    by blast
  from r2 g2 have l2: "poll_loop example_env (Suc 0) (?s1, ?h1)
      = Some (Some (queued_packet\<lparr>l4_e_dst := Some 5\<rparr>), ?s2, ?h1(0 := ?t2))"
    by (simp del: poll_loop.simps)
  have e: "?s2 = ring_shard\<lparr>tcb_polled := 129, poll_tcbs := []\<rparr>"
    by (simp add: provider_input_simps)
  have "packet_provider example_env (ring_shard, example_heap) =
       Some (Some (queued_packet\<lparr>l4_e_dst := Some 5\<rparr>),
             ring_shard\<lparr>tcb_polled := 129, poll_tcbs := []\<rparr>, ?h1(0 := ?t2))"
    unfolding l0 a(6) l1 l2 e by (rule refl)
  with d a show ?thesis by simp
qed

text \<open>
  Two calls in a row with a connection scheduled: each drains a stray packet, and neither
  polls the connection, whose entry stays at the front of the ring.
\<close>

theorem packet_provider_strays_first_counterexample:
  "poll_tcbs stray_shard = [(0, 5)]
   \<and> packet_provider example_env (stray_shard, example_heap) =
       Some (Some stray_packet,
             stray_shard\<lparr>stray_packetq := [stray_packet\<lparr>l4_to := 3\<rparr>],
               queue_space := \<lparr>sem_count = 213012, sem_broken = None\<rparr>\<rparr>,
             example_heap)
   \<and> poll_tcbs (stray_shard\<lparr>stray_packetq := [stray_packet\<lparr>l4_to := 3\<rparr>],
                   queue_space := \<lparr>sem_count = 213012, sem_broken = None\<rparr>\<rparr>) = [(0, 5)]
   \<and> packet_provider example_env
         (stray_shard\<lparr>stray_packetq := [stray_packet\<lparr>l4_to := 3\<rparr>],
            queue_space := \<lparr>sem_count = 213012, sem_broken = None\<rparr>\<rparr>, example_heap) =
       Some (Some (stray_packet\<lparr>l4_to := 3\<rparr>),
             stray_shard\<lparr>stray_packetq := [],
               queue_space := \<lparr>sem_count = 213032, sem_broken = None\<rparr>\<rparr>,
             example_heap)"
  by (simp add: packet_provider_def provider_input_simps signal_def segment_len_reset)

theorem rto_always_in_range_witness:
  "rto_in_range (est_tcb\<lparr>snd_dupacks := 2\<rparr>)
   \<and> rto_in_range (update_rto 250 100 (est_tcb\<lparr>snd_dupacks := 2\<rparr>))
   \<and> rto (fst (output_update_rto example_env (est_tcb\<lparr>snd_dupacks := 2\<rparr>, new_tcp))) = 2000
   \<and> rto_in_range (fst (output_update_rto example_env (est_tcb\<lparr>snd_dupacks := 2\<rparr>, new_tcp)))
   \<and> rto_in_range (fst (retransmit example_env (est_tcb\<lparr>snd_dupacks := 2\<rparr>, new_tcp)))
   \<and> input_handle_other_state example_env (dup_ack_hdr\<lparr>window := 100\<rparr>) (replicate 20 0)
        (est_tcb\<lparr>snd_dupacks := 2\<rparr>, new_tcp) = Some (est_tcb\<lparr>snd_dupacks := 2\<rparr>, new_tcp)
   \<and> rto_in_range (fst (est_tcb\<lparr>snd_dupacks := 2\<rparr>, new_tcp))
   \<and> get_packet example_env (queued_tcb, new_tcp)
       = Some (Some queued_packet, queued_tcb\<lparr>poll_active := False, packetq := []\<rparr>, new_tcp)
   \<and> rto (fst (queued_tcb\<lparr>poll_active := False, packetq := []\<rparr>, new_tcp)) = rto queued_tcb"
proof -
  let ?t = "est_tcb\<lparr>snd_dupacks := 2\<rparr>"
  let ?th = "dup_ack_hdr\<lparr>window := 100\<rparr>"
  let ?q = "queued_tcb\<lparr>poll_active := False, packetq := []\<rparr>"
  note i = rto_always_in_range[where now = 250 and tx = 100 and t = ?t and e = example_env
      and s = new_tcp and r = 1000 and th = ?th and ?p0.0 = "replicate 20 0"]
  note j = rto_always_in_range[where now = 250 and tx = 100 and t = queued_tcb
      and e = example_env and s = new_tcp and r = 1000 and th = ?th
      and ?p0.0 = "replicate 20 0"]
  have rng: "rto_in_range ?t"
    by (simp add: rto_in_range_def example_tcb_simps rto_min_def rto_max_def)
  have v: "min (rto ?t * 2) rto_max = 2000"
    by (simp add: example_tcb_simps rto_max_def)
  have g: "get_packet example_env (queued_tcb, new_tcp) = Some (Some queued_packet, ?q, new_tcp)"
    by (rule get_packet_queued) (simp_all add: provider_input_simps)
  from i have 1: "rto_in_range (update_rto 250 100 ?t)" by blast
  from i have 2: "rto (fst (output_update_rto example_env (?t, new_tcp))) = min (rto ?t * 2) rto_max"
    by blast
  from i rng have 3: "rto_in_range (fst (output_update_rto example_env (?t, new_tcp)))" by blast
  from i rng have 4: "rto_in_range (fst (retransmit example_env (?t, new_tcp)))" by blast
  from i rng window_changed_handled have 5: "rto_in_range (fst (?t, new_tcp))" by blast
  from j g have 6: "rto (fst (?q, new_tcp)) = rto queued_tcb" by blast
  show ?thesis
    using rng 1 2 3 4 5 6 g window_changed_handled unfolding v by (intro conjI)
qed

text \<open>
  \<^verbatim>\<open>get_packet\<close> never fails its assertion: whenever the TCB is not closed after
  \<^verbatim>\<open>output_one\<close>, a segment is in \<^verbatim>\<open>_packetq\<close>.  So the call always returns.
\<close>

theorem get_packet_returns: "\<exists>r. get_packet e (t, s) = Some r"
  using get_packet_total[of e t s] by blast

end
